theory Spec2Isabelle
  imports Complex_Main
begin

section \<open>JavaScript values\<close>

text \<open>
  The client is TypeScript. Numbers are modelled as \<^typ>\<open>real\<close> (rounding of doubles is not
  modelled), strings as \<^typ>\<open>string\<close> (one \<^typ>\<open>char\<close> per code unit below 256), and a value of
  type \<^verbatim>\<open>unknown\<close> that came out of a JSON document as a \<open>json\<close> tree. \<^verbatim>\<open>undefined\<close> is
  \<^term>\<open>None\<close> of an option type.
\<close>

datatype json =
    JNull
  | JBool bool
  | JNum real
  | JStr string
  | JArr "json list"
  | JObj "(string \<times> json) list"

text \<open>
  \<open>get_prop v k\<close> is \<^verbatim>\<open>v.k\<close> for a value \<open>v\<close> other than \<^verbatim>\<open>null\<close> and a property \<open>k\<close> that
  no prototype defines (the client reads \<^verbatim>\<open>error\<close>, \<^verbatim>\<open>type\<close>, \<^verbatim>\<open>timestamp\<close>, \<^verbatim>\<open>data\<close>,
  \<^verbatim>\<open>content\<close> and \<^verbatim>\<open>message\<close>): the member of an object, \<^verbatim>\<open>undefined\<close> for everything
  else. The members of a parsed object have distinct names. Reading a property of \<^verbatim>\<open>null\<close>
  or \<^verbatim>\<open>undefined\<close> throws and is handled where it happens.
\<close>

fun get_prop :: "json \<Rightarrow> string \<Rightarrow> json option" where
  "get_prop (JObj members) k = map_of members k"
| "get_prop v k = None"

fun truthy :: "json option \<Rightarrow> bool" where
  "truthy None = False"
| "truthy (Some JNull) = False"
| "truthy (Some (JBool b)) = b"
| "truthy (Some (JNum x)) = (x \<noteq> 0)"
| "truthy (Some (JStr s)) = (s \<noteq> [])"
| "truthy (Some (JArr xs)) = True"
| "truthy (Some (JObj members)) = True"

text \<open>
  Exceptions that are not instances of \<^verbatim>\<open>AidenError\<close>. \<open>JsTypeError m\<close> is an instance of
  \<^verbatim>\<open>TypeError\<close> with message \<open>m\<close>; \<open>JsDOMException n m\<close> an instance of \<^verbatim>\<open>DOMException\<close>
  with name \<open>n\<close>; \<open>JsError n m\<close> any other instance of \<^verbatim>\<open>Error\<close> (a plain \<^verbatim>\<open>Error\<close>, a
  \<^verbatim>\<open>SyntaxError\<close>, ...); \<open>JsNonError s\<close> a thrown value that is no \<^verbatim>\<open>Error\<close> at all, with
  \<open>s\<close> what \<^verbatim>\<open>String(value)\<close> gives for it.
\<close>

datatype js_exception =
    JsTypeError string
  | JsDOMException string string
  | JsError string string
  | JsNonError string

fun instanceof_Error :: "js_exception \<Rightarrow> bool" where
  "instanceof_Error (JsNonError s) = False"
| "instanceof_Error e = True"

text \<open>\<^verbatim>\<open>error.message\<close> of an \<^verbatim>\<open>Error\<close>, and \<^verbatim>\<open>String(error)\<close> of any other thrown value.\<close>

fun exn_message :: "js_exception \<Rightarrow> string" where
  "exn_message (JsTypeError m) = m"
| "exn_message (JsDOMException n m) = m"
| "exn_message (JsError n m) = m"
| "exn_message (JsNonError s) = s"

text \<open>\<^verbatim>\<open>s.startsWith(p)\<close>, \<^verbatim>\<open>s.includes(p)\<close>, \<^verbatim>\<open>s.slice(n)\<close> and \<^verbatim>\<open>s.trim()\<close>.\<close>

definition startsWith :: "string \<Rightarrow> string \<Rightarrow> bool" where
  "startsWith s p = (take (length p) s = p)"

fun str_includes :: "string \<Rightarrow> string \<Rightarrow> bool" where
  "str_includes [] p = (p = [])"
| "str_includes (c # cs) p = (startsWith (c # cs) p \<or> str_includes cs p)"

definition slice :: "string \<Rightarrow> nat \<Rightarrow> string" where
  "slice s n = drop n s"

definition is_space :: "char \<Rightarrow> bool" where
  "is_space c = ((of_char c :: nat) \<in> {9, 10, 11, 12, 13, 32, 160})"

definition trim :: "string \<Rightarrow> string" where
  "trim s = rev (dropWhile is_space (rev (dropWhile is_space s)))"

section \<open>The error hierarchy\<close>

record PaginationMeta =
  page :: real
  limit :: real
  total :: real
  totalPages :: real

text \<open>
  \<^verbatim>\<open>ResponseMeta\<close>. The declared type makes \<^verbatim>\<open>requestId\<close> mandatory, but the classifier
  reads it with \<^verbatim>\<open>meta?.requestId ?? 'unknown'\<close>, so both the record and the field are
  optional here.
\<close>

record ResponseMeta =
  requestId :: "string option"
  timestamp :: string
  pagination :: "PaginationMeta option"

datatype error_kind =
    Generic
  | Validation
  | Authentication
  | Forbidden
  | NotFound
  | Conflict
  | UnprocessableEntity
  | RateLimit
  | Internal
  | BadGateway
  | ServiceUnavailable
  | GatewayTimeout
  | Connection
  | Timeout

text \<open>
  An instance of \<^verbatim>\<open>AidenError\<close> or of one of its subclasses. \<open>kind\<close> is the class of the
  instance (\<open>Generic\<close> for \<^verbatim>\<open>AidenError\<close> itself); the fields of the subclasses
  (\<^verbatim>\<open>fieldErrors\<close>, \<^verbatim>\<open>retryAfter\<close>, \<^verbatim>\<open>timeoutMs\<close>, \<^verbatim>\<open>cause\<close>) are \<^term>\<open>None\<close> where the class
  does not set them.
\<close>

record aiden_error =
  kind :: error_kind
  name :: string
  message :: string
  code :: string
  status :: nat
  requestId :: string
  meta :: "ResponseMeta option"
  details :: "json option"
  fieldErrors :: "json list option"
  retryAfter :: "real option"
  timeoutMs :: "real option"
  cause :: "js_exception option"

definition AidenError ::
  "string \<Rightarrow> string \<Rightarrow> nat \<Rightarrow> string \<Rightarrow> ResponseMeta option \<Rightarrow> json option \<Rightarrow> aiden_error" where
  "AidenError message' code' status' requestId' meta' details' =
     \<lparr>kind = Generic, name = ''AidenError'', message = message', code = code', status = status',
      aiden_error.requestId = requestId', meta = meta', details = details', fieldErrors = None,
      retryAfter = None, timeoutMs = None, cause = None\<rparr>"

definition ValidationError ::
  "string \<Rightarrow> string \<Rightarrow> string \<Rightarrow> ResponseMeta option \<Rightarrow> json option \<Rightarrow> aiden_error" where
  "ValidationError message' code' requestId' meta' details' =
     (AidenError message' code' 400 requestId' meta' details')
       \<lparr>kind := Validation, name := ''ValidationError'',
        fieldErrors := (case details' of Some (JArr xs) \<Rightarrow> Some xs | _ \<Rightarrow> None)\<rparr>"

definition AuthenticationError ::
  "string \<Rightarrow> string \<Rightarrow> string \<Rightarrow> ResponseMeta option \<Rightarrow> json option \<Rightarrow> aiden_error" where
  "AuthenticationError message' code' requestId' meta' details' =
     (AidenError message' code' 401 requestId' meta' details')
       \<lparr>kind := Authentication, name := ''AuthenticationError''\<rparr>"

definition ForbiddenError ::
  "string \<Rightarrow> string \<Rightarrow> string \<Rightarrow> ResponseMeta option \<Rightarrow> json option \<Rightarrow> aiden_error" where
  "ForbiddenError message' code' requestId' meta' details' =
     (AidenError message' code' 403 requestId' meta' details')
       \<lparr>kind := Forbidden, name := ''ForbiddenError''\<rparr>"

definition NotFoundError ::
  "string \<Rightarrow> string \<Rightarrow> string \<Rightarrow> ResponseMeta option \<Rightarrow> json option \<Rightarrow> aiden_error" where
  "NotFoundError message' code' requestId' meta' details' =
     (AidenError message' code' 404 requestId' meta' details')
       \<lparr>kind := NotFound, name := ''NotFoundError''\<rparr>"

definition ConflictError ::
  "string \<Rightarrow> string \<Rightarrow> string \<Rightarrow> ResponseMeta option \<Rightarrow> json option \<Rightarrow> aiden_error" where
  "ConflictError message' code' requestId' meta' details' =
     (AidenError message' code' 409 requestId' meta' details')
       \<lparr>kind := Conflict, name := ''ConflictError''\<rparr>"

definition UnprocessableEntityError ::
  "string \<Rightarrow> string \<Rightarrow> string \<Rightarrow> ResponseMeta option \<Rightarrow> json option \<Rightarrow> aiden_error" where
  "UnprocessableEntityError message' code' requestId' meta' details' =
     (AidenError message' code' 422 requestId' meta' details')
       \<lparr>kind := UnprocessableEntity, name := ''UnprocessableEntityError''\<rparr>"

definition RateLimitError ::
  "string \<Rightarrow> string \<Rightarrow> real \<Rightarrow> ResponseMeta option \<Rightarrow> json option \<Rightarrow> aiden_error" where
  "RateLimitError message' requestId' retryAfter' meta' details' =
     (AidenError message' ''RATE_LIMITED'' 429 requestId' meta' details')
       \<lparr>kind := RateLimit, name := ''RateLimitError'', retryAfter := Some retryAfter'\<rparr>"

definition InternalError ::
  "string \<Rightarrow> string \<Rightarrow> ResponseMeta option \<Rightarrow> json option \<Rightarrow> aiden_error" where
  "InternalError message' requestId' meta' details' =
     (AidenError message' ''INTERNAL_ERROR'' 500 requestId' meta' details')
       \<lparr>kind := Internal, name := ''InternalError''\<rparr>"

definition BadGatewayError ::
  "string \<Rightarrow> string \<Rightarrow> ResponseMeta option \<Rightarrow> json option \<Rightarrow> aiden_error" where
  "BadGatewayError message' requestId' meta' details' =
     (AidenError message' ''BAD_GATEWAY'' 502 requestId' meta' details')
       \<lparr>kind := BadGateway, name := ''BadGatewayError''\<rparr>"

definition ServiceUnavailableError ::
  "string \<Rightarrow> string \<Rightarrow> ResponseMeta option \<Rightarrow> json option \<Rightarrow> aiden_error" where
  "ServiceUnavailableError message' requestId' meta' details' =
     (AidenError message' ''SERVICE_UNAVAILABLE'' 503 requestId' meta' details')
       \<lparr>kind := ServiceUnavailable, name := ''ServiceUnavailableError''\<rparr>"

definition GatewayTimeoutError ::
  "string \<Rightarrow> string \<Rightarrow> ResponseMeta option \<Rightarrow> json option \<Rightarrow> aiden_error" where
  "GatewayTimeoutError message' requestId' meta' details' =
     (AidenError message' ''GATEWAY_TIMEOUT'' 504 requestId' meta' details')
       \<lparr>kind := GatewayTimeout, name := ''GatewayTimeoutError''\<rparr>"

definition ConnectionError :: "string \<Rightarrow> js_exception option \<Rightarrow> aiden_error" where
  "ConnectionError message' cause' =
     (AidenError message' ''CONNECTION_ERROR'' 0 ''unknown'' None None)
       \<lparr>kind := Connection, name := ''ConnectionError'', cause := cause'\<rparr>"

definition TimeoutError :: "string \<Rightarrow> real \<Rightarrow> aiden_error" where
  "TimeoutError message' timeoutMs' =
     (AidenError message' ''TIMEOUT'' 0 ''unknown'' None (Some (JObj [(''timeoutMs'', JNum timeoutMs')])))
       \<lparr>kind := Timeout, name := ''TimeoutError'', timeoutMs := Some timeoutMs'\<rparr>"

text \<open>
  The error envelope \<^verbatim>\<open>{ error: { code, message, details? }, meta }\<close>, at the type the
  classifier declares for its argument.
\<close>

record ApiError =
  code :: string
  message :: string
  details :: "json option"

record ApiErrorResponse =
  error :: ApiError
  meta :: "ResponseMeta option"

text \<open>
  A parsed JSON value seen at these types; \<^term>\<open>None\<close> when it does not have the shape. An
  envelope is an object whose \<^verbatim>\<open>error\<close> member is an object with strings for \<^verbatim>\<open>code\<close> and
  \<^verbatim>\<open>message\<close> and with or without \<^verbatim>\<open>details\<close>, and whose \<^verbatim>\<open>meta\<close> member, when there is one,
  is an object with a string for \<^verbatim>\<open>timestamp\<close>, with or without a string for \<^verbatim>\<open>requestId\<close>,
  and with or without a \<^verbatim>\<open>pagination\<close> object of four numbers. Members that the types do
  not name are not looked at.
\<close>

definition as_PaginationMeta :: "json \<Rightarrow> PaginationMeta option" where
  "as_PaginationMeta v =
     (case (get_prop v ''page'', get_prop v ''limit'', get_prop v ''total'',
            get_prop v ''totalPages'') of
        (Some (JNum page'), Some (JNum limit'), Some (JNum total'), Some (JNum totalPages')) \<Rightarrow>
          Some \<lparr>page = page', limit = limit', total = total', totalPages = totalPages'\<rparr>
      | _ \<Rightarrow> None)"

definition as_ResponseMeta :: "json \<Rightarrow> ResponseMeta option" where
  "as_ResponseMeta v =
     (case get_prop v ''timestamp'' of
        Some (JStr timestamp') \<Rightarrow>
          (case (get_prop v ''requestId'', get_prop v ''pagination'') of
             (None, None) \<Rightarrow>
               Some \<lparr>ResponseMeta.requestId = None, timestamp = timestamp', pagination = None\<rparr>
           | (Some (JStr requestId'), None) \<Rightarrow>
               Some \<lparr>ResponseMeta.requestId = Some requestId', timestamp = timestamp', pagination = None\<rparr>
           | (None, Some p) \<Rightarrow>
               map_option
                 (\<lambda>pagination'. \<lparr>ResponseMeta.requestId = None, timestamp = timestamp',
                                  pagination = Some pagination'\<rparr>)
                 (as_PaginationMeta p)
           | (Some (JStr requestId'), Some p) \<Rightarrow>
               map_option
                 (\<lambda>pagination'. \<lparr>ResponseMeta.requestId = Some requestId', timestamp = timestamp',
                                  pagination = Some pagination'\<rparr>)
                 (as_PaginationMeta p)
           | _ \<Rightarrow> None)
      | _ \<Rightarrow> None)"

definition as_ApiError :: "json \<Rightarrow> ApiError option" where
  "as_ApiError v =
     (case (get_prop v ''code'', get_prop v ''message'') of
        (Some (JStr code'), Some (JStr message')) \<Rightarrow>
          Some \<lparr>code = code', message = message', details = get_prop v ''details''\<rparr>
      | _ \<Rightarrow> None)"

definition as_ApiErrorResponse :: "json \<Rightarrow> ApiErrorResponse option" where
  "as_ApiErrorResponse v =
     (case get_prop v ''error'' of
        Some e \<Rightarrow>
          (case as_ApiError e of
             Some error' \<Rightarrow>
               (case get_prop v ''meta'' of
                  None \<Rightarrow> Some \<lparr>error = error', meta = None\<rparr>
                | Some m \<Rightarrow>
                    map_option (\<lambda>meta'. \<lparr>error = error', meta = Some meta'\<rparr>)
                      (as_ResponseMeta m))
           | None \<Rightarrow> None)
      | None \<Rightarrow> None)"

text \<open>
  \<^verbatim>\<open>createErrorFromResponse(status, body, retryAfterMs?)\<close> on a body of the declared shape: a
  \<^verbatim>\<open>switch\<close> on the status. It has no \<^verbatim>\<open>throw\<close>, and on such a body the destructuring at its
  head cannot fail, so the result here is the error value itself and not a sum. What the
  function does when the client hands it a parsed body that nothing has checked is
  \<open>createErrorFromResponse_unchecked\<close> in the next section.
\<close>

definition createErrorFromResponse ::
  "nat \<Rightarrow> ApiErrorResponse \<Rightarrow> real option \<Rightarrow> aiden_error" where
  "createErrorFromResponse status' body retryAfterMs =
     (let code' = ApiError.code (error body);
          message' = ApiError.message (error body);
          details' = ApiError.details (error body);
          meta' = ApiErrorResponse.meta body;
          requestId' = (case meta' of
                          None \<Rightarrow> ''unknown''
                        | Some m \<Rightarrow> (case ResponseMeta.requestId m of
                                      None \<Rightarrow> ''unknown''
                                    | Some r \<Rightarrow> r))
      in if status' = 400 then ValidationError message' code' requestId' meta' details'
         else if status' = 401 then AuthenticationError message' code' requestId' meta' details'
         else if status' = 403 then ForbiddenError message' code' requestId' meta' details'
         else if status' = 404 then NotFoundError message' code' requestId' meta' details'
         else if status' = 409 then ConflictError message' code' requestId' meta' details'
         else if status' = 422 then
           UnprocessableEntityError message' code' requestId' meta' details'
         else if status' = 429 then
           RateLimitError message' requestId'
             (case retryAfterMs of None \<Rightarrow> 60000 | Some ms \<Rightarrow> ms) meta' details'
         else if status' = 500 then InternalError message' requestId' meta' details'
         else if status' = 502 then BadGatewayError message' requestId' meta' details'
         else if status' = 503 then ServiceUnavailableError message' requestId' meta' details'
         else if status' = 504 then GatewayTimeoutError message' requestId' meta' details'
         else AidenError message' code' status' requestId' meta' details')"

section \<open>The HTTP client\<close>

subsection \<open>Requests, responses and the platform\<close>

datatype HttpMethod = GET | POST | PUT | PATCH | DELETE

fun method_name :: "HttpMethod \<Rightarrow> string" where
  "method_name GET = ''GET''"
| "method_name POST = ''POST''"
| "method_name PUT = ''PUT''"
| "method_name PATCH = ''PATCH''"
| "method_name DELETE = ''DELETE''"

text \<open>
  An \<^verbatim>\<open>AbortSignal\<close> is either one the caller made (\<open>CallerSignal\<close>, with an identity) or the
  signal of the \<^verbatim>\<open>AbortController\<close> that \<^verbatim>\<open>fetchWithTimeout\<close> creates together with a timer
  of the given delay (\<open>ControllerSignal\<close>).
\<close>

datatype AbortSignal = CallerSignal nat | ControllerSignal real

datatype query_value = QString string | QNumber real | QBoolean bool | QUndefined | QNull

record RequestOptions =
  timeout :: "real option"
  userId :: "string option"
  headers :: "(string \<rightharpoonup> string) option"
  signal :: "AbortSignal option"

record HttpRequestOptions = RequestOptions +
  "method" :: HttpMethod
  path :: string
  body :: "json option"
  query :: "(string \<times> query_value) list option"
  raw :: "bool option"

record RequestInit =
  "method" :: string
  headers :: "string \<rightharpoonup> string"
  body :: "string option"
  signal :: "AbortSignal option"

text \<open>
  A \<^verbatim>\<open>Response\<close>: \<open>headers\<close> is \<^verbatim>\<open>response.headers.get\<close> on lower-case names and \<open>json\<close> is
  what \<^verbatim>\<open>response.json()\<close> settles to, \<open>Inl\<close> the rejection when the body is not JSON. The
  parsed body is a \<open>json\<close> tree: the casts of the client (\<^verbatim>\<open>as ApiResponse<T>\<close>,
  \<^verbatim>\<open>as ApiErrorResponse\<close>) check nothing, so any JSON value can arrive.
\<close>

record Response =
  ok :: bool
  status :: nat
  statusText :: string
  headers :: "string \<rightharpoonup> string"
  json :: "js_exception + json"

text \<open>
  What a call can throw: an instance of \<^verbatim>\<open>AidenError\<close> (\<open>Typed\<close>) or anything else
  (\<open>Untyped\<close>).
\<close>

datatype thrown = Typed aiden_error | Untyped js_exception

datatype fetch_result = Resolved Response | Rejected thrown

text \<open>
  The transport \<^verbatim>\<open>fetchFn(url, init)\<close>. It may answer differently each time it is called, so
  its first argument is the number of calls made before this one.
\<close>

type_synonym fetch = "nat \<Rightarrow> string \<Rightarrow> RequestInit \<Rightarrow> fetch_result"

text \<open>
  What the runtime provides and the client does not define: the \<open>k\<close>-th result of
  \<^verbatim>\<open>Math.random()\<close> and of reading the clock, date parsing and printing, number printing,
  \<^verbatim>\<open>JSON.stringify\<close>, and \<^verbatim>\<open>new URL(s)\<close> followed by the \<^verbatim>\<open>searchParams.set\<close> calls and
  \<^verbatim>\<open>toString()\<close>.

  The last field is not a function of the runtime. It stands for what
  \<^verbatim>\<open>createErrorFromResponse\<close> does with a parsed body that has an \<^verbatim>\<open>error\<close> member but not
  the declared shape (a \<^verbatim>\<open>code\<close> that is a number, say): such members are stored or
  printed as they are, which the records of this theory cannot show. It is left open, and
  no property below depends on it.
\<close>

record platform =
  Math_random :: "nat \<Rightarrow> real"
  Date_now :: "nat \<Rightarrow> real"
  Date_parse :: "string \<Rightarrow> real option"
  Date_toISOString :: "real \<Rightarrow> string"
  Number_toString :: "real \<Rightarrow> string"
  JSON_stringify :: "json \<Rightarrow> string"
  URL_href :: "string \<Rightarrow> (string \<times> string) list \<Rightarrow> js_exception + string"
  classify_other :: "nat \<Rightarrow> json \<Rightarrow> real option \<Rightarrow> js_exception + aiden_error"

text \<open>
  The effects of a call: how often the transport, \<^verbatim>\<open>Math.random\<close> and the clock were used,
  the durations slept, and the delays of the timeout timers that were started.
\<close>

record io =
  calls :: nat
  randoms :: nat
  clock_reads :: nat
  sleeps :: "real list"
  timers :: "real list"

text \<open>
  The configuration and the client. \<^verbatim>\<open>maxRetries\<close> is a count and is modelled as a natural
  number (its declared type is \<^verbatim>\<open>number\<close>, and nothing checks the value).
\<close>

record AidenClientConfig =
  apiKey :: string
  baseUrl :: string
  userId :: "string option"
  timeout :: "real option"
  maxRetries :: "nat option"
  fetch :: "fetch option"

record HttpClient =
  config :: AidenClientConfig
  fetchFn :: fetch
  defaultTimeout :: real
  maxRetries :: nat

text \<open>The constructor; its second argument is \<^verbatim>\<open>globalThis.fetch\<close>.\<close>

definition new_HttpClient ::
  "AidenClientConfig \<Rightarrow> fetch option \<Rightarrow> js_exception + HttpClient" where
  "new_HttpClient cfg global_fetch =
     (case (case fetch cfg of Some f \<Rightarrow> Some f | None \<Rightarrow> global_fetch) of
        None \<Rightarrow> Inl (JsError ''Error''
          (''No fetch implementation found. Please provide one via the `fetch` config option '' @
           ''or use Node.js 18+.''))
      | Some f \<Rightarrow> Inr \<lparr>config = cfg, fetchFn = f,
          defaultTimeout = (case AidenClientConfig.timeout cfg of Some t \<Rightarrow> t | None \<Rightarrow> 30000),
          maxRetries = (case AidenClientConfig.maxRetries cfg of Some n \<Rightarrow> n | None \<Rightarrow> 3)\<rparr>)"

subsection \<open>Helpers\<close>

fun String_of_query_value :: "platform \<Rightarrow> query_value \<Rightarrow> string" where
  "String_of_query_value plat (QString s) = s"
| "String_of_query_value plat (QNumber x) = Number_toString plat x"
| "String_of_query_value plat (QBoolean b) = (if b then ''true'' else ''false'')"
| "String_of_query_value plat QUndefined = ''undefined''"
| "String_of_query_value plat QNull = ''null''"

definition buildUrl ::
  "platform \<Rightarrow> HttpClient \<Rightarrow> string \<Rightarrow> (string \<times> query_value) list option \<Rightarrow>
   js_exception + string" where
  "buildUrl plat c path' query' =
     (let base = rev (dropWhile (\<lambda>ch. ch = CHR ''/'') (rev (baseUrl (config c))));
          cleanPath = (if startsWith path' ''/'' then path' else ''/'' @ path');
          entries = (case query' of None \<Rightarrow> [] | Some q \<Rightarrow> q)
      in URL_href plat (base @ cleanPath)
           (map (\<lambda>(key, value). (key, String_of_query_value plat value))
              (filter (\<lambda>(key, value). value \<noteq> QUndefined \<and> value \<noteq> QNull) entries)))"

definition buildHeaders :: "HttpClient \<Rightarrow> RequestOptions \<Rightarrow> (string \<rightharpoonup> string)" where
  "buildHeaders c options =
     (let headers0 = [''Content-Type'' \<mapsto> ''application/json'',
                      ''Accept'' \<mapsto> ''application/json'',
                      ''Authorization'' \<mapsto> ''Bearer '' @ apiKey (config c)];
          userId' = (case RequestOptions.userId options of
                       Some u \<Rightarrow> Some u
                     | None \<Rightarrow> AidenClientConfig.userId (config c));
          headers1 = (case userId' of
                        None \<Rightarrow> headers0
                      | Some u \<Rightarrow> if u \<noteq> [] then headers0(''X-User-ID'' \<mapsto> u) else headers0)
      in case RequestOptions.headers options of
           None \<Rightarrow> headers1
         | Some custom \<Rightarrow> headers1 ++ custom)"

definition fetchWithTimeout ::
  "HttpClient \<Rightarrow> io \<Rightarrow> string \<Rightarrow> RequestInit \<Rightarrow> real \<Rightarrow> fetch_result \<times> io" where
  "fetchWithTimeout c s url init timeoutMs' =
     (case RequestInit.signal init of
        Some sig \<Rightarrow> (fetchFn c (calls s) url init, s\<lparr>calls := Suc (calls s)\<rparr>)
      | None \<Rightarrow>
          (fetchFn c (calls s) url (init\<lparr>RequestInit.signal := Some (ControllerSignal timeoutMs')\<rparr>),
           s\<lparr>calls := Suc (calls s), timers := timers s @ [timeoutMs']\<rparr>))"

text \<open>
  What \<^verbatim>\<open>safeParseJson\<close> returns: the parsed body as it is, whatever its shape (\<open>Parsed\<close>), or
  the envelope that the method builds itself when the body is not JSON (\<open>Built\<close>).
\<close>

datatype error_body = Parsed json | Built ApiErrorResponse

definition safeParseJson :: "platform \<Rightarrow> io \<Rightarrow> Response \<Rightarrow> error_body \<times> io" where
  "safeParseJson plat s response =
     (case json response of
        Inr parsed \<Rightarrow> (Parsed parsed, s)
      | Inl e \<Rightarrow>
          (Built
             \<lparr>error = \<lparr>code = ''UNKNOWN_ERROR'',
                        message = (if statusText response \<noteq> [] then statusText response
                                   else ''HTTP '' @ Number_toString plat (real (status response))),
                        details = None\<rparr>,
              meta = Some \<lparr>ResponseMeta.requestId =
                             Some (case Response.headers response ''x-request-id'' of
                                     None \<Rightarrow> ''unknown'' | Some v \<Rightarrow> v),
                           timestamp = Date_toISOString plat (Date_now plat (clock_reads s)),
                           pagination = None\<rparr>\<rparr>,
           s\<lparr>clock_reads := Suc (clock_reads s)\<rparr>))"

text \<open>
  \<^verbatim>\<open>createErrorFromResponse\<close> as \<^verbatim>\<open>requestRaw\<close> calls it, on what \<^verbatim>\<open>safeParseJson\<close> returned.
  The function begins with \<^verbatim>\<open>const { code, message, details } = body.error\<close>, which throws a
  \<^verbatim>\<open>TypeError\<close> when \<^verbatim>\<open>body\<close> is \<^verbatim>\<open>null\<close> and when \<^verbatim>\<open>body.error\<close> is \<^verbatim>\<open>undefined\<close> or \<^verbatim>\<open>null\<close>
  (the wording of the message is the engine's and is only indicated here). On a parsed
  body of the declared shape it is \<open>createErrorFromResponse\<close> of the last section.
\<close>

definition has_error_member :: "json \<Rightarrow> bool" where
  "has_error_member parsed =
     (parsed \<noteq> JNull \<and> get_prop parsed ''error'' \<noteq> None
      \<and> get_prop parsed ''error'' \<noteq> Some JNull)"

definition cannot_destructure :: js_exception where
  "cannot_destructure =
     JsTypeError ''Cannot destructure property code of body.error as it is undefined.''"

definition createErrorFromResponse_unchecked ::
  "platform \<Rightarrow> nat \<Rightarrow> error_body \<Rightarrow> real option \<Rightarrow> js_exception + aiden_error" where
  "createErrorFromResponse_unchecked plat status' errorBody retryAfterMs =
     (case errorBody of
        Built envelope \<Rightarrow> Inr (createErrorFromResponse status' envelope retryAfterMs)
      | Parsed parsed \<Rightarrow>
          if \<not> has_error_member parsed then Inl cannot_destructure
          else (case as_ApiErrorResponse parsed of
                  Some envelope \<Rightarrow> Inr (createErrorFromResponse status' envelope retryAfterMs)
                | None \<Rightarrow> classify_other plat status' parsed retryAfterMs))"

text \<open>
  \<^verbatim>\<open>parseInt(s, 10)\<close>: leading white space, an optional sign, then the longest run of
  decimal digits; \<^term>\<open>None\<close> is \<^verbatim>\<open>NaN\<close>.
\<close>

definition is_digit :: "char \<Rightarrow> bool" where
  "is_digit c = (48 \<le> (of_char c :: nat) \<and> (of_char c :: nat) \<le> 57)"

definition parseInt10 :: "string \<Rightarrow> int option" where
  "parseInt10 s =
     (let t = dropWhile is_space s;
          neg = (case t of [] \<Rightarrow> False | c # cs \<Rightarrow> c = CHR ''-'');
          u = (case t of [] \<Rightarrow> [] | c # cs \<Rightarrow> if c = CHR ''-'' \<or> c = CHR ''+'' then cs else t);
          ds = takeWhile is_digit u;
          n = foldl (\<lambda>acc c. 10 * acc + (int (of_char c) - 48)) 0 ds
      in if ds = [] then None else Some (if neg then - n else n))"

definition parseRetryAfter :: "platform \<Rightarrow> io \<Rightarrow> Response \<Rightarrow> real \<times> io" where
  "parseRetryAfter plat s response =
     (case Response.headers response ''retry-after'' of
        None \<Rightarrow> (60000, s)
      | Some retryAfter' \<Rightarrow>
          if retryAfter' = [] then (60000, s)
          else (case parseInt10 retryAfter' of
                  Some seconds \<Rightarrow> (real_of_int seconds * 1000, s)
                | None \<Rightarrow>
                    (case Date_parse plat retryAfter' of
                       Some t \<Rightarrow> (max 0 (t - Date_now plat (clock_reads s)),
                                  s\<lparr>clock_reads := Suc (clock_reads s)\<rparr>)
                     | None \<Rightarrow> (60000, s))))"

definition calculateBackoff :: "platform \<Rightarrow> io \<Rightarrow> nat \<Rightarrow> real \<times> io" where
  "calculateBackoff plat s attempt =
     (let base = 2 ^ attempt * 1000;
          jitter = Math_random plat (randoms s) * 500
      in (min (base + jitter) 30000, s\<lparr>randoms := Suc (randoms s)\<rparr>))"

definition sleep :: "io \<Rightarrow> real \<Rightarrow> io" where
  "sleep s ms = s\<lparr>sleeps := sleeps s @ [ms]\<rparr>"

subsection \<open>The retry loop\<close>

text \<open>
  One pass through the body of the \<^verbatim>\<open>for\<close> loop of \<^verbatim>\<open>requestRaw\<close> ends in a \<^verbatim>\<open>return\<close>, in a
  \<^verbatim>\<open>throw\<close> that leaves the function, or by going on to the next attempt with a new
  \<^verbatim>\<open>lastError\<close> (through \<^verbatim>\<open>continue\<close>, or by falling out of the \<^verbatim>\<open>catch\<close> block on the last
  attempt).
\<close>

datatype attempt_result = Return Response | Throw thrown | Continue aiden_error

fun instanceof_TypeError :: "js_exception \<Rightarrow> bool" where
  "instanceof_TypeError (JsTypeError m) = True"
| "instanceof_TypeError e = False"

fun is_AbortError :: "js_exception \<Rightarrow> bool" where
  "is_AbortError (JsDOMException n m) = (n = ''AbortError'')"
| "is_AbortError e = False"

definition catch_block ::
  "platform \<Rightarrow> HttpClient \<Rightarrow> string \<Rightarrow> real \<Rightarrow> nat \<Rightarrow> io \<Rightarrow> thrown \<Rightarrow>
   attempt_result \<times> io" where
  "catch_block plat c url timeout' attempt s err =
     (case err of
        Typed e \<Rightarrow> (Throw (Typed e), s)
      | Untyped e \<Rightarrow>
          (case (if instanceof_TypeError e \<and> str_includes (exn_message e) ''fetch'' then
                   Inr (ConnectionError (''Failed to connect to '' @ url) (Some e))
                 else if is_AbortError e then
                   Inl (TimeoutError
                          (''Request timed out after '' @ Number_toString plat timeout' @ ''ms'')
                          timeout')
                 else
                   Inr (ConnectionError
                          (''Request failed: '' @ exn_message e)
                          (if instanceof_Error e then Some e else None))) of
             Inl timeoutError \<Rightarrow> (Throw (Typed timeoutError), s)
           | Inr lastError \<Rightarrow>
               if attempt < maxRetries c
               then (let (backoff, s1) = calculateBackoff plat s attempt
                     in (Continue lastError, sleep s1 backoff))
               else (Continue lastError, s)))"

text \<open>
  The \<^verbatim>\<open>try\<close> block. \<open>Inl\<close> is an exception raised inside it, which the \<^verbatim>\<open>catch\<close> block
  receives: the rejection of the transport, the error made from a response that is not
  retried, or the \<^verbatim>\<open>TypeError\<close> of \<^verbatim>\<open>createErrorFromResponse\<close>. In the two retrying branches
  the classifier is called after the sleep, so its exception comes after the wait.
\<close>

definition try_block ::
  "platform \<Rightarrow> HttpClient \<Rightarrow> string \<Rightarrow> HttpMethod \<Rightarrow> (string \<rightharpoonup> string) \<Rightarrow>
   json option \<Rightarrow> AbortSignal option \<Rightarrow> real \<Rightarrow> nat \<Rightarrow> io \<Rightarrow> (thrown + attempt_result) \<times> io" where
  "try_block plat c url method' headers' body' signal' timeout' attempt s =
     (case fetchWithTimeout c s url
             \<lparr>RequestInit.method = method_name method', headers = headers',
              body = map_option (JSON_stringify plat) body', signal = signal'\<rparr> timeout' of
        (Rejected err, s1) \<Rightarrow> (Inl err, s1)
      | (Resolved response, s1) \<Rightarrow>
          if ok response then (Inr (Return response), s1)
          else if status response = 204 then (Inr (Return response), s1)
          else
            (let (errorBody, s2) = safeParseJson plat s1 response
             in if status response = 429 \<and> attempt < maxRetries c then
                  (let (retryAfterMs, s3) = parseRetryAfter plat s2 response;
                       (b, s4) = calculateBackoff plat s3 attempt;
                       backoff = min retryAfterMs b;
                       s5 = sleep s4 backoff
                   in case createErrorFromResponse_unchecked plat (status response) errorBody
                             (Some retryAfterMs) of
                        Inl e \<Rightarrow> (Inl (Untyped e), s5)
                      | Inr lastError \<Rightarrow> (Inr (Continue lastError), s5))
                else if status response \<ge> 500 \<and> attempt < maxRetries c then
                  (let (backoff, s3) = calculateBackoff plat s2 attempt;
                       s4 = sleep s3 backoff
                   in case createErrorFromResponse_unchecked plat (status response) errorBody
                             None of
                        Inl e \<Rightarrow> (Inl (Untyped e), s4)
                      | Inr lastError \<Rightarrow> (Inr (Continue lastError), s4))
                else if status response = 429 then
                  (let (retryAfterMs, s3) = parseRetryAfter plat s2 response
                   in case createErrorFromResponse_unchecked plat (status response) errorBody
                             (Some retryAfterMs) of
                        Inl e \<Rightarrow> (Inl (Untyped e), s3)
                      | Inr err \<Rightarrow> (Inl (Typed err), s3))
                else
                  (case createErrorFromResponse_unchecked plat (status response) errorBody
                          None of
                     Inl e \<Rightarrow> (Inl (Untyped e), s2)
                   | Inr err \<Rightarrow> (Inl (Typed err), s2))))"

text \<open>\<^verbatim>\<open>try\<close> and \<^verbatim>\<open>catch\<close> together.\<close>

definition attempt_body ::
  "platform \<Rightarrow> HttpClient \<Rightarrow> string \<Rightarrow> HttpMethod \<Rightarrow> (string \<rightharpoonup> string) \<Rightarrow>
   json option \<Rightarrow> AbortSignal option \<Rightarrow> real \<Rightarrow> nat \<Rightarrow> io \<Rightarrow> attempt_result \<times> io" where
  "attempt_body plat c url method' headers' body' signal' timeout' attempt s =
     (case try_block plat c url method' headers' body' signal' timeout' attempt s of
        (Inl err, s1) \<Rightarrow> catch_block plat c url timeout' attempt s1 err
      | (Inr result, s1) \<Rightarrow> (result, s1))"

text \<open>
  The loop \<^verbatim>\<open>for (let attempt = 0; attempt <= this.maxRetries; attempt++)\<close> and the
  \<^verbatim>\<open>throw lastError ?? new ConnectionError(...)\<close> after it.
\<close>

function retry_loop ::
  "platform \<Rightarrow> HttpClient \<Rightarrow> string \<Rightarrow> HttpMethod \<Rightarrow> (string \<rightharpoonup> string) \<Rightarrow>
   json option \<Rightarrow> AbortSignal option \<Rightarrow> real \<Rightarrow> nat \<Rightarrow> aiden_error option \<Rightarrow> io \<Rightarrow>
   (thrown + Response) \<times> io" where
  "retry_loop plat c url method' headers' body' signal' timeout' attempt lastError s =
     (if attempt \<le> maxRetries c then
        (case attempt_body plat c url method' headers' body' signal' timeout' attempt s of
           (Return response, s') \<Rightarrow> (Inr response, s')
         | (Throw err, s') \<Rightarrow> (Inl err, s')
         | (Continue e, s') \<Rightarrow>
             retry_loop plat c url method' headers' body' signal' timeout' (Suc attempt)
               (Some e) s')
      else
        (Inl (Typed (case lastError of
                       Some e \<Rightarrow> e
                     | None \<Rightarrow> ConnectionError ''Request failed after all retries'' None)),
         s))"
  by pat_completeness auto
termination
  by (relation "measure (\<lambda>(plat, c, url, method', headers', body', signal', timeout', attempt,
        lastError, s). Suc (maxRetries c) - attempt)") auto

declare retry_loop.simps [simp del]

subsection \<open>The public operations\<close>

definition requestRaw ::
  "platform \<Rightarrow> HttpClient \<Rightarrow> HttpRequestOptions \<Rightarrow> io \<Rightarrow> (thrown + Response) \<times> io" where
  "requestRaw plat c options s =
     (case buildUrl plat c (path options) (query options) of
        Inl e \<Rightarrow> (Inl (Untyped e), s)
      | Inr url \<Rightarrow>
          (let rest = \<lparr>RequestOptions.timeout = RequestOptions.timeout options,
                       userId = RequestOptions.userId options,
                       headers = RequestOptions.headers options,
                       signal = None\<rparr>;
               headers' = buildHeaders c rest;
               timeout' = (case RequestOptions.timeout rest of
                             Some t \<Rightarrow> t
                           | None \<Rightarrow> defaultTimeout c)
           in retry_loop plat c url (HttpRequestOptions.method options) headers'
                (HttpRequestOptions.body options) (RequestOptions.signal options) timeout'
                0 None s))"

definition request ::
  "platform \<Rightarrow> HttpClient \<Rightarrow> HttpRequestOptions \<Rightarrow> io \<Rightarrow> (thrown + json) \<times> io" where
  "request plat c options s =
     (case requestRaw plat c options s of
        (Inl err, s') \<Rightarrow> (Inl err, s')
      | (Inr response, s') \<Rightarrow>
          (case json response of
             Inl e \<Rightarrow> (Inl (Untyped e), s')
           | Inr body' \<Rightarrow> (Inr body', s')))"

definition requestPaginated ::
  "platform \<Rightarrow> HttpClient \<Rightarrow> HttpRequestOptions \<Rightarrow> io \<Rightarrow> (thrown + json) \<times> io" where
  "requestPaginated plat c options s =
     (case requestRaw plat c options s of
        (Inl err, s') \<Rightarrow> (Inl err, s')
      | (Inr response, s') \<Rightarrow>
          (case json response of
             Inl e \<Rightarrow> (Inl (Untyped e), s')
           | Inr body' \<Rightarrow> (Inr body', s')))"

section \<open>The SSE stream\<close>

subsection \<open>The runtime of the stream\<close>

text \<open>
  What the stream needs from the runtime: \<^verbatim>\<open>JSON.parse\<close> (\<^term>\<open>None\<close> when it throws), the
  value of \<^verbatim>\<open>Date.now()\<close> while block \<open>j\<close> of the buffer is parsed after read \<open>i\<close>, and the
  printing of numbers.
\<close>

record sse_platform =
  JSON_parse :: "string \<Rightarrow> json option"
  Date_now_at :: "nat \<Rightarrow> nat \<Rightarrow> real"
  Number_print :: "real \<Rightarrow> string"

fun join_comma :: "string list \<Rightarrow> string" where
  "join_comma [] = []"
| "join_comma [x] = x"
| "join_comma (x # y # ys) = x @ '','' @ join_comma (y # ys)"

text \<open>The string a value turns into when it is appended to a string or passed to \<^verbatim>\<open>Error\<close>.\<close>

fun ToString :: "sse_platform \<Rightarrow> json \<Rightarrow> string" where
  "ToString P JNull = ''null''"
| "ToString P (JBool b) = (if b then ''true'' else ''false'')"
| "ToString P (JNum x) = Number_print P x"
| "ToString P (JStr s) = s"
| "ToString P (JArr xs) = join_comma (map (\<lambda>x. if x = JNull then [] else ToString P x) xs)"
| "ToString P (JObj members) = ''[object Object]''"

definition ToString_opt :: "sse_platform \<Rightarrow> json option \<Rightarrow> string" where
  "ToString_opt P v = (case v of None \<Rightarrow> ''undefined'' | Some x \<Rightarrow> ToString P x)"

subsection \<open>Splitting\<close>

text \<open>
  \<^verbatim>\<open>s.split(sep)\<close> for a separator that is not empty: \<open>split_from sep cur s\<close> scans \<open>s\<close> from
  the left with \<open>cur\<close> the piece read so far.
\<close>

function split_from :: "string \<Rightarrow> string \<Rightarrow> string \<Rightarrow> string list" where
  "split_from sep cur [] = [cur]"
| "split_from sep cur (c # cs) =
     (if sep \<noteq> [] \<and> startsWith (c # cs) sep
      then cur # split_from sep [] (drop (length sep) (c # cs))
      else split_from sep (cur @ [c]) cs)"
  by pat_completeness auto
termination
  by (relation "measure (\<lambda>(sep, cur, s). length s)") auto

definition split :: "string \<Rightarrow> string \<Rightarrow> string list" where
  "split s sep = split_from sep [] s"

subsection \<open>The parser\<close>

text \<open>The body of the loop over the lines of a block: \<open>(data, eventType)\<close> before and after.\<close>

definition scan_line :: "string \<times> string \<Rightarrow> string \<Rightarrow> string \<times> string" where
  "scan_line acc line =
     (case acc of (data, eventType) \<Rightarrow>
        if startsWith line ''data: '' then (data @ slice line 6, eventType)
        else if startsWith line ''data:'' then (data @ slice line 5, eventType)
        else if startsWith line ''event: '' then (data, trim (slice line 7))
        else if startsWith line ''event:'' then (data, trim (slice line 6))
        else (data, eventType))"

text \<open>
  The rest of \<^verbatim>\<open>parseSingleEvent\<close>, from \<^verbatim>\<open>if (!data) return null\<close> on. Events are JSON
  objects. Inside the \<^verbatim>\<open>try\<close>, \<^verbatim>\<open>parsed.type\<close> throws a \<^verbatim>\<open>TypeError\<close> when \<^verbatim>\<open>parsed\<close> is
  \<^verbatim>\<open>null\<close>, and the \<^verbatim>\<open>catch\<close> takes it as it takes a failure of \<^verbatim>\<open>JSON.parse\<close>.
\<close>

definition delta_event :: "real \<Rightarrow> string \<Rightarrow> json" where
  "delta_event now content =
     JObj [(''type'', JStr ''delta''), (''phase'', JStr ''do''),
           (''data'', JObj [(''content'', JStr content)]),
           (''timestamp'', JNum now), (''visibility'', JStr ''prominent'')]"

definition wrapped_event :: "real \<Rightarrow> string \<Rightarrow> json \<Rightarrow> json" where
  "wrapped_event now eventType parsed =
     JObj [(''type'', JStr (if eventType \<noteq> [] then eventType else ''message'')),
           (''phase'', JStr ''do''), (''data'', parsed),
           (''timestamp'', JNum now), (''visibility'', JStr ''prominent'')]"

definition event_of_data :: "sse_platform \<Rightarrow> real \<Rightarrow> string \<Rightarrow> string \<Rightarrow> json option" where
  "event_of_data P now eventType data =
     (if data = [] then None
      else (case JSON_parse P data of
              None \<Rightarrow> Some (delta_event now data)
            | Some parsed \<Rightarrow>
                if parsed = JNull then Some (delta_event now data)
                else if truthy (get_prop parsed ''type'') \<and> get_prop parsed ''timestamp'' \<noteq> None
                then Some parsed
                else Some (wrapped_event now eventType parsed)))"

definition parseSingleEvent :: "sse_platform \<Rightarrow> real \<Rightarrow> string \<Rightarrow> json option" where
  "parseSingleEvent P now block =
     (case foldl scan_line ([], []) (split block [CHR 0x0A]) of
        (data, eventType) \<Rightarrow> event_of_data P now eventType data)"

text \<open>
  \<^verbatim>\<open>parseEvents\<close>: the loop over the blocks, with \<open>j\<close> the position of the block in the
  buffer, and the function itself returning \<open>(parsed, remaining)\<close>.
\<close>

fun parse_blocks :: "sse_platform \<Rightarrow> (nat \<Rightarrow> real) \<Rightarrow> nat \<Rightarrow> string list \<Rightarrow> json list" where
  "parse_blocks P now j [] = []"
| "parse_blocks P now j (block # blocks) =
     (let trimmed = trim block
      in if trimmed = [] then parse_blocks P now (Suc j) blocks
         else (case parseSingleEvent P (now j) trimmed of
                 None \<Rightarrow> parse_blocks P now (Suc j) blocks
               | Some event \<Rightarrow> event # parse_blocks P now (Suc j) blocks))"

definition parseEvents :: "sse_platform \<Rightarrow> (nat \<Rightarrow> real) \<Rightarrow> string \<Rightarrow> json list \<times> string" where
  "parseEvents P now buffer =
     (let blocks = split buffer [CHR 0x0A, CHR 0x0A]
      in (parse_blocks P now 0 (butlast blocks), last blocks))"

subsection \<open>The stream and its consumers\<close>

text \<open>
  The body of the response: the text that the decoder returns for each chunk read, in
  order, and then either the end of the stream or a read that fails. The only state of an
  \<^verbatim>\<open>AidenStream\<close> is its \<^verbatim>\<open>consumed\<close> flag.
\<close>

record ReadableStream =
  chunks :: "string list"
  failure :: "js_exception option"

record AidenStream =
  body :: "ReadableStream option"
  consumed :: bool

text \<open>The constructor, given the body of the response (\<^term>\<open>None\<close> when it is \<^verbatim>\<open>null\<close>).\<close>

definition new_AidenStream :: "ReadableStream option \<Rightarrow> AidenStream" where
  "new_AidenStream b = \<lparr>body = b, consumed = False\<rparr>"

definition already_consumed :: thrown where
  "already_consumed =
     Untyped (JsError ''Error''
       ''Stream has already been consumed. SSE streams can only be read once.'')"

text \<open>The \<^verbatim>\<open>while (true)\<close> loop over the reads: the events yielded and the buffer left.\<close>

fun read_loop ::
  "sse_platform \<Rightarrow> nat \<Rightarrow> string \<Rightarrow> string list \<Rightarrow> json list \<times> string" where
  "read_loop P i buffer [] = ([], buffer)"
| "read_loop P i buffer (value # rest) =
     (case parseEvents P (Date_now_at P i) (buffer @ value) of
        (parsed, remaining) \<Rightarrow>
          (case read_loop P (Suc i) remaining rest of
             (later, buffer') \<Rightarrow> (parsed @ later, buffer')))"

text \<open>
  Running the async iterator to its end: the events it yields, what it throws after them
  if it throws, and the stream afterwards.
\<close>

definition asyncIterator ::
  "sse_platform \<Rightarrow> AidenStream \<Rightarrow> (json list \<times> thrown option) \<times> AidenStream" where
  "asyncIterator P stream =
     (if consumed stream then (([], Some already_consumed), stream)
      else
        (let stream' = stream\<lparr>consumed := True\<rparr>
         in case AidenStream.body stream of
              None \<Rightarrow>
                (([], Some (Typed (ConnectionError
                                    ''Response body is null -- no stream available'' None))),
                 stream')
            | Some source \<Rightarrow>
                (case read_loop P 0 [] (chunks source) of
                   (events, buffer) \<Rightarrow>
                     (case failure source of
                        Some e \<Rightarrow> ((events, Some (Untyped e)), stream')
                      | None \<Rightarrow>
                          if trim buffer \<noteq> []
                          then ((events @ fst (parseEvents P
                                   (Date_now_at P (length (chunks source)))
                                   (buffer @ [CHR 0x0A, CHR 0x0A])), None), stream')
                          else ((events, None), stream')))))"

text \<open>
  \<^verbatim>\<open>text()\<close>: the loop appends the content of every delta event. \<^verbatim>\<open>deltaData.content\<close>
  throws a \<^verbatim>\<open>TypeError\<close> when the event has no data (the wording of its message is the
  engine's and is only indicated here).
\<close>

definition property_of_nullish :: "string \<Rightarrow> js_exception" where
  "property_of_nullish k =
     JsTypeError (''Cannot read properties of undefined (reading '' @ k @ '')'')"

fun text_loop :: "sse_platform \<Rightarrow> string \<Rightarrow> json list \<Rightarrow> js_exception + string" where
  "text_loop P result [] = Inr result"
| "text_loop P result (event # events) =
     (if get_prop event ''type'' = Some (JStr ''delta'') then
        (case get_prop event ''data'' of
           None \<Rightarrow> Inl (property_of_nullish ''content'')
         | Some JNull \<Rightarrow> Inl (property_of_nullish ''content'')
         | Some deltaData \<Rightarrow>
             text_loop P (result @ ToString_opt P (get_prop deltaData ''content'')) events)
      else text_loop P result events)"

definition stream_text :: "sse_platform \<Rightarrow> AidenStream \<Rightarrow> (thrown + string) \<times> AidenStream" where
  "stream_text P stream =
     (case asyncIterator P stream of
        ((events, err), stream') \<Rightarrow>
          (case text_loop P [] events of
             Inl e \<Rightarrow> (Inl (Untyped e), stream')
           | Inr result \<Rightarrow>
               (case err of
                  Some t \<Rightarrow> (Inl t, stream')
                | None \<Rightarrow> (Inr result, stream'))))"

text \<open>
  \<^verbatim>\<open>subscribe(callbacks)\<close>. A callback is either registered or not and is taken to return
  normally; the calls made are recorded in order.
\<close>

record StreamCallbacks =
  onEvent :: bool
  onDelta :: bool
  onComplete :: bool
  onError :: bool
  onThinking :: bool

datatype callback_call =
    OnEvent json
  | OnDelta "json option"
  | OnComplete "json option"
  | OnError thrown
  | OnThinking json

definition is_thinking :: "json option \<Rightarrow> bool" where
  "is_thinking t =
     (t = Some (JStr ''thinking_start'') \<or> t = Some (JStr ''analysis_result'') \<or>
      t = Some (JStr ''decision_trace'') \<or> t = Some (JStr ''pdca_step'') \<or>
      t = Some (JStr ''thinking_complete''))"

text \<open>
  The body of the \<^verbatim>\<open>for await\<close> loop of \<^verbatim>\<open>subscribe\<close> for one event: the calls it makes,
  \<^verbatim>\<open>completeData\<close> afterwards, and the exception it throws if it throws.
\<close>

definition dispatch ::
  "sse_platform \<Rightarrow> StreamCallbacks \<Rightarrow> json option \<Rightarrow> json \<Rightarrow>
   callback_call list \<times> json option \<times> js_exception option" where
  "dispatch P callbacks completeData event =
     (let first = (if onEvent callbacks then [OnEvent event] else []);
          type' = get_prop event ''type'';
          data' = get_prop event ''data''
      in if type' = Some (JStr ''delta'') then
           (if onDelta callbacks then
              (case data' of
                 None \<Rightarrow> (first, completeData, Some (property_of_nullish ''content''))
               | Some JNull \<Rightarrow> (first, completeData, Some (property_of_nullish ''content''))
               | Some deltaData \<Rightarrow>
                   (first @ [OnDelta (get_prop deltaData ''content'')], completeData, None))
            else (first, completeData, None))
         else if type' = Some (JStr ''complete'') then
           (first @ (if onComplete callbacks then [OnComplete data'] else []), data', None)
         else if type' = Some (JStr ''error'') then
           (if onError callbacks then
              (case data' of
                 None \<Rightarrow> (first, completeData, Some (property_of_nullish ''message''))
               | Some JNull \<Rightarrow> (first, completeData, Some (property_of_nullish ''message''))
               | Some errorData \<Rightarrow>
                   (first @ [OnError (Untyped (JsError ''Error''
                       (case get_prop errorData ''message'' of
                          None \<Rightarrow> []
                        | Some m \<Rightarrow> ToString P m)))],
                    completeData, None))
            else (first, completeData, None))
         else
           (first @ (if is_thinking type' \<and> onThinking callbacks then [OnThinking event] else []),
            completeData, None))"

fun subscribe_loop ::
  "sse_platform \<Rightarrow> StreamCallbacks \<Rightarrow> json option \<Rightarrow> json list \<Rightarrow>
   callback_call list \<times> json option \<times> js_exception option" where
  "subscribe_loop P callbacks completeData [] = ([], completeData, None)"
| "subscribe_loop P callbacks completeData (event # events) =
     (case dispatch P callbacks completeData event of
        (made, completeData', Some e) \<Rightarrow> (made, completeData', Some e)
      | (made, completeData', None) \<Rightarrow>
          (case subscribe_loop P callbacks completeData' events of
             (later, r) \<Rightarrow> (made @ later, r)))"

text \<open>
  The \<^verbatim>\<open>catch\<close> of \<^verbatim>\<open>subscribe\<close>: what reaches \<^verbatim>\<open>onError\<close> is the error itself, or
  \<^verbatim>\<open>new Error(String(error))\<close> for a thrown value that is no \<^verbatim>\<open>Error\<close>. The result is the
  value returned or the exception rethrown, the calls made, and the stream afterwards.
\<close>

fun as_Error :: "thrown \<Rightarrow> thrown" where
  "as_Error (Untyped (JsNonError s)) = Untyped (JsError ''Error'' s)"
| "as_Error t = t"

definition subscribe ::
  "sse_platform \<Rightarrow> StreamCallbacks \<Rightarrow> AidenStream \<Rightarrow>
   (thrown + json option) \<times> callback_call list \<times> AidenStream" where
  "subscribe P callbacks stream =
     (case asyncIterator P stream of
        ((events, err), stream') \<Rightarrow>
          (case subscribe_loop P callbacks None events of
             (made, completeData, thrown_in_loop) \<Rightarrow>
               (case (case thrown_in_loop of Some e \<Rightarrow> Some (Untyped e) | None \<Rightarrow> err) of
                  None \<Rightarrow> (Inr completeData, made, stream')
                | Some caught \<Rightarrow>
                    if onError callbacks
                    then (Inr completeData, made @ [OnError (as_Error caught)], stream')
                    else (Inl caught, made, stream'))))"

section \<open>Fixtures\<close>

text \<open>
  Concrete inputs in the style of the repository's tests (\<^verbatim>\<open>baseConfig\<close>, \<^verbatim>\<open>mockFetch\<close>): a
  client with key \<^verbatim>\<open>test-key\<close> at \<^verbatim>\<open>https://api.test.com\<close>, a runtime, and some responses.
  The runtime is a stand-in: random numbers are always \<open>1/2\<close>, the clock stands still,
  numbers print as the decimal of their integer part, and URLs are not normalised. The
  bodies below either have the declared shape or have no \<^verbatim>\<open>error\<close> member, so
  \<open>classify_other\<close> is never reached; it is set to a plain \<^verbatim>\<open>AidenError\<close>.
\<close>

function decimal :: "nat \<Rightarrow> string" where
  "decimal n =
     (if n < 10 then [char_of (48 + n)]
      else decimal (n div 10) @ [char_of (48 + n mod 10)])"
  by pat_completeness auto
termination
  by (relation "measure id") auto

declare decimal.simps [simp del]

definition test_platform :: platform where
  "test_platform =
     \<lparr>Math_random = (\<lambda>k. 1 / 2),
      Date_now = (\<lambda>k. 0),
      Date_parse = (\<lambda>s. None),
      Date_toISOString = (\<lambda>t. ''1970-01-01T00:00:00.000Z''),
      Number_toString = (\<lambda>x. decimal (nat \<lfloor>x\<rfloor>)),
      JSON_stringify = (\<lambda>j. ''{}''),
      URL_href = (\<lambda>s q. if startsWith s ''https://''
                         then Inr (s @ concat (map (\<lambda>(k, v). ''&'' @ k @ ''='' @ v) q))
                         else Inl (JsTypeError ''Invalid URL'')),
      classify_other = (\<lambda>status' parsed retryAfterMs.
                          Inr (AidenError [] [] status' ''unknown'' None None))\<rparr>"

text \<open>A transport that gives the same answer to every call, as \<^verbatim>\<open>mockResolvedValue\<close> does.\<close>

definition always :: "fetch_result \<Rightarrow> fetch" where
  "always r = (\<lambda>k url init. r)"

definition test_client :: "nat \<Rightarrow> fetch \<Rightarrow> HttpClient" where
  "test_client n f =
     \<lparr>config = \<lparr>apiKey = ''test-key'', baseUrl = ''https://api.test.com'', userId = None,
                timeout = None, maxRetries = Some n, fetch = Some f\<rparr>,
      fetchFn = f, defaultTimeout = 30000, maxRetries = n\<rparr>"

definition io0 :: io where
  "io0 = \<lparr>calls = 0, randoms = 0, clock_reads = 0, sleeps = [], timers = []\<rparr>"

definition get_test :: HttpRequestOptions where
  "get_test =
     \<lparr>RequestOptions.timeout = None, userId = None, headers = None, signal = None,
      HttpRequestOptions.method = GET, path = ''/test'', body = None, query = None,
      raw = None\<rparr>"

definition rate_limited_json :: json where
  "rate_limited_json =
     JObj [(''error'', JObj [(''code'', JStr ''RATE_LIMITED''), (''message'', JStr ''Slow down'')]),
           (''meta'', JObj [(''requestId'', JStr ''req-1''), (''timestamp'', JStr ''2026-01-01'')])]"

definition too_many_requests :: Response where
  "too_many_requests =
     \<lparr>ok = False, status = 429, statusText = ''Too Many Requests'',
      headers = [''retry-after'' \<mapsto> ''1''],
      json = Inr rate_limited_json\<rparr>"



definition ok_but_not_json :: Response where
  "ok_but_not_json =
     \<lparr>ok = True, status = 200, statusText = ''OK'', headers = Map.empty,
      json = Inl (JsError ''SyntaxError'' ''Unexpected token < in JSON at position 0'')\<rparr>"

definition not_found_body :: ApiErrorResponse where
  "not_found_body =
     \<lparr>error = \<lparr>code = ''NOT_FOUND'', message = ''Notebook not found'', details = None\<rparr>,
      meta = Some \<lparr>ResponseMeta.requestId = Some ''req-1'', timestamp = ''2026-01-01'',
                   pagination = None\<rparr>\<rparr>"

definition not_found_json :: json where
  "not_found_json =
     JObj [(''error'', JObj [(''code'', JStr ''NOT_FOUND''),
                             (''message'', JStr ''Notebook not found'')]),
           (''meta'', JObj [(''requestId'', JStr ''req-1''), (''timestamp'', JStr ''2026-01-01'')])]"

definition not_found :: Response where
  "not_found =
     \<lparr>ok = False, status = 404, statusText = ''OK'', headers = Map.empty,
      json = Inr not_found_json\<rparr>"

text \<open>
  For the stream: \<^verbatim>\<open>data: <payload>\<close> followed by the blank line, as \<^verbatim>\<open>createSSEResponse\<close>
  writes a record; the events of the streaming tests; a runtime whose \<^verbatim>\<open>JSON.parse\<close> is a
  table from texts to values; and the payloads of the tests as \<^verbatim>\<open>JSON.stringify\<close> prints
  them.
\<close>

definition data_record :: "string \<Rightarrow> string" where
  "data_record payload = ''data: '' @ payload @ [CHR 0x0A, CHR 0x0A]"

definition stream_event :: "string \<Rightarrow> string \<Rightarrow> json \<Rightarrow> real \<Rightarrow> json" where
  "stream_event type' phase' data' timestamp' =
     JObj [(''type'', JStr type'), (''phase'', JStr phase'), (''data'', data'),
           (''timestamp'', JNum timestamp'), (''visibility'', JStr ''prominent'')]"

definition table_platform :: "(string \<times> json) list \<Rightarrow> sse_platform" where
  "table_platform table =
     \<lparr>JSON_parse = map_of table, Date_now_at = (\<lambda>i j. 0),
      Number_print = (\<lambda>x. decimal (nat \<lfloor>x\<rfloor>))\<rparr>"

definition connected_json :: string where
  \<open>connected_json =
     ''{"type":"connected","phase":"plan","data":{},"timestamp":1000,"visibility":"prominent"}''\<close>

definition hello_json :: string where
  \<open>hello_json =
     ''{"type":"delta","phase":"do","data":{"content":"Hello"},"timestamp":1001,"visibility":"prominent"}''\<close>

definition world_json :: string where
  \<open>world_json =
     ''{"type":"delta","phase":"do","data":{"content":" World"},"timestamp":1002,"visibility":"prominent"}''\<close>

definition complete_json :: string where
  \<open>complete_json =
     ''{"type":"complete","phase":"act","data":{"sessionId":"s-1"},"timestamp":1003,"visibility":"prominent"}''\<close>

definition hello1_json :: string where
  \<open>hello1_json =
     ''{"type":"delta","phase":"do","data":{"content":"Hello"},"timestamp":1,"visibility":"prominent"}''\<close>

definition space2_json :: string where
  \<open>space2_json =
     ''{"type":"delta","phase":"do","data":{"content":" "},"timestamp":2,"visibility":"prominent"}''\<close>

definition world3_json :: string where
  \<open>world3_json =
     ''{"type":"delta","phase":"do","data":{"content":"World"},"timestamp":3,"visibility":"prominent"}''\<close>

definition empty_type_json :: string where
  \<open>empty_type_json = ''{"type":"","timestamp":1}''\<close>

definition test_table :: "(string \<times> json) list" where
  "test_table =
     [(connected_json, stream_event ''connected'' ''plan'' (JObj []) 1000),
      (hello_json, stream_event ''delta'' ''do'' (JObj [(''content'', JStr ''Hello'')]) 1001),
      (world_json, stream_event ''delta'' ''do'' (JObj [(''content'', JStr '' World'')]) 1002),
      (complete_json,
       stream_event ''complete'' ''act'' (JObj [(''sessionId'', JStr ''s-1'')]) 1003),
      (hello1_json, stream_event ''delta'' ''do'' (JObj [(''content'', JStr ''Hello'')]) 1),
      (space2_json, stream_event ''delta'' ''do'' (JObj [(''content'', JStr '' '')]) 2),
      (world3_json, stream_event ''delta'' ''do'' (JObj [(''content'', JStr ''World'')]) 3),
      (empty_type_json, JObj [(''type'', JStr []), (''timestamp'', JNum 1)]),
      (''null'', JNull),
      (''5'', JNum 5)]"

section \<open>Properties of the error classifier\<close>

lemmas error_ctor_defs = AidenError_def ValidationError_def AuthenticationError_def
  ForbiddenError_def NotFoundError_def ConflictError_def UnprocessableEntityError_def
  RateLimitError_def InternalError_def BadGatewayError_def ServiceUnavailableError_def
  GatewayTimeoutError_def ConnectionError_def TimeoutError_def

text \<open>
  Claim C3. For every status and every error body of the declared shape,
  \<^verbatim>\<open>createErrorFromResponse\<close> returns an error (the function is total and has no exceptional
  result) whose \<open>status\<close> is the status given. For the eleven statuses 400, 401, 403, 404,
  409, 422, 429, 500, 502, 503 and 504 the error is of the corresponding class; for every
  other status it is a plain \<^verbatim>\<open>AidenError\<close> that keeps the status and the code of the body.
  For 429, \<open>retryAfter\<close> is the value supplied, and 60000 when none is. The request id is
  the one in \<open>meta\<close>, and \<open>unknown\<close> when \<open>meta\<close> or its request id is missing.
\<close>

theorem createErrorFromResponse_classifies:
  fixes st :: nat and b :: ApiErrorResponse and r :: "real option"
  defines "e \<equiv> createErrorFromResponse st b r"
  shows "aiden_error.status e = st
    \<and> (st = 400 \<longrightarrow> kind e = Validation)
    \<and> (st = 401 \<longrightarrow> kind e = Authentication)
    \<and> (st = 403 \<longrightarrow> kind e = Forbidden)
    \<and> (st = 404 \<longrightarrow> kind e = NotFound)
    \<and> (st = 409 \<longrightarrow> kind e = Conflict)
    \<and> (st = 422 \<longrightarrow> kind e = UnprocessableEntity)
    \<and> (st = 429 \<longrightarrow> kind e = RateLimit)
    \<and> (st = 500 \<longrightarrow> kind e = Internal)
    \<and> (st = 502 \<longrightarrow> kind e = BadGateway)
    \<and> (st = 503 \<longrightarrow> kind e = ServiceUnavailable)
    \<and> (st = 504 \<longrightarrow> kind e = GatewayTimeout)
    \<and> (st \<notin> {400, 401, 403, 404, 409, 422, 429, 500, 502, 503, 504} \<longrightarrow>
          kind e = Generic \<and> aiden_error.code e = ApiError.code (error b))
    \<and> (st = 429 \<longrightarrow> retryAfter e = Some (case r of Some ms \<Rightarrow> ms | None \<Rightarrow> 60000))
    \<and> aiden_error.requestId e =
          (case ApiErrorResponse.meta b of
             None \<Rightarrow> ''unknown''
           | Some m \<Rightarrow> (case ResponseMeta.requestId m of None \<Rightarrow> ''unknown'' | Some i \<Rightarrow> i))"
  unfolding e_def createErrorFromResponse_def Let_def
  by (simp add: error_ctor_defs)

text \<open>
  The theorem at each of the eleven statuses, at 418, and at 429 with and without a
  retry-after value, for the body of the 404 test and for a body without \<open>meta\<close>.
\<close>

theorem createErrorFromResponse_classifies_witness:
  "kind (createErrorFromResponse 400 not_found_body None) = Validation
   \<and> kind (createErrorFromResponse 401 not_found_body None) = Authentication
   \<and> kind (createErrorFromResponse 403 not_found_body None) = Forbidden
   \<and> kind (createErrorFromResponse 404 not_found_body None) = NotFound
   \<and> aiden_error.status (createErrorFromResponse 404 not_found_body None) = 404
   \<and> aiden_error.requestId (createErrorFromResponse 404 not_found_body None) = ''req-1''
   \<and> kind (createErrorFromResponse 409 not_found_body None) = Conflict
   \<and> kind (createErrorFromResponse 422 not_found_body None) = UnprocessableEntity
   \<and> kind (createErrorFromResponse 429 not_found_body None) = RateLimit
   \<and> retryAfter (createErrorFromResponse 429 not_found_body None) = Some 60000
   \<and> retryAfter (createErrorFromResponse 429 not_found_body (Some 1000)) = Some 1000
   \<and> kind (createErrorFromResponse 500 not_found_body None) = Internal
   \<and> kind (createErrorFromResponse 502 not_found_body None) = BadGateway
   \<and> kind (createErrorFromResponse 503 not_found_body None) = ServiceUnavailable
   \<and> kind (createErrorFromResponse 504 not_found_body None) = GatewayTimeout
   \<and> kind (createErrorFromResponse 418 not_found_body None) = Generic
   \<and> aiden_error.status (createErrorFromResponse 418 not_found_body None) = 418
   \<and> aiden_error.code (createErrorFromResponse 418 not_found_body None) = ''NOT_FOUND''
   \<and> aiden_error.requestId
         (createErrorFromResponse 500 (not_found_body\<lparr>ApiErrorResponse.meta := None\<rparr>) None) =
       ''unknown''"
  using createErrorFromResponse_classifies [of 400 not_found_body None]
        createErrorFromResponse_classifies [of 401 not_found_body None]
        createErrorFromResponse_classifies [of 403 not_found_body None]
        createErrorFromResponse_classifies [of 404 not_found_body None]
        createErrorFromResponse_classifies [of 409 not_found_body None]
        createErrorFromResponse_classifies [of 422 not_found_body None]
        createErrorFromResponse_classifies [of 429 not_found_body None]
        createErrorFromResponse_classifies [of 429 not_found_body "Some 1000"]
        createErrorFromResponse_classifies [of 500 not_found_body None]
        createErrorFromResponse_classifies [of 502 not_found_body None]
        createErrorFromResponse_classifies [of 503 not_found_body None]
        createErrorFromResponse_classifies [of 504 not_found_body None]
        createErrorFromResponse_classifies [of 418 not_found_body None]
        createErrorFromResponse_classifies
          [of 500 "not_found_body\<lparr>ApiErrorResponse.meta := None\<rparr>" None]
  by (simp add: not_found_body_def)

section \<open>Properties of the HTTP client\<close>

subsection \<open>Headers\<close>

text \<open>
  Claim C6, as stated: the \<^verbatim>\<open>Authorization\<close> header of every request is
  \<^verbatim>\<open>Bearer <apiKey>\<close>, also when the caller supplies custom headers. It fails for a caller
  who supplies an \<^verbatim>\<open>Authorization\<close> header: custom headers are merged last.
\<close>

theorem buildHeaders_custom_authorization_counterexample:
  "buildHeaders (test_client 3 (always (Resolved too_many_requests)))
     \<lparr>RequestOptions.timeout = None, userId = None,
      headers = Some [''Authorization'' \<mapsto> ''Basic abc''], signal = None\<rparr>
     ''Authorization''
   \<noteq> Some (''Bearer '' @ apiKey (config (test_client 3 (always (Resolved too_many_requests)))))
   \<and> buildHeaders (test_client 3 (always (Resolved too_many_requests)))
     \<lparr>RequestOptions.timeout = None, userId = None,
      headers = Some [''Authorization'' \<mapsto> ''Basic abc''], signal = None\<rparr>
     ''Authorization''
   = Some ''Basic abc''"
  by (simp add: buildHeaders_def test_client_def)

text \<open>
  Claim C6, amended. When the caller's custom headers do not set \<^verbatim>\<open>Authorization\<close>, the
  \<^verbatim>\<open>Authorization\<close> header is \<^verbatim>\<open>Bearer <apiKey>\<close>. When they do not set \<^verbatim>\<open>X-User-ID\<close>, that
  header is present exactly when the effective user id (the one of the call if there is one,
  else the one of the configuration) is a non-empty string, and then it is that id. Custom
  headers are merged last: every header the caller supplies is in the request with the
  caller's value.
\<close>

theorem buildHeaders_caller_wins:
  fixes c :: HttpClient and options :: RequestOptions
  defines "effective \<equiv> (case RequestOptions.userId options of
                           Some u \<Rightarrow> Some u
                         | None \<Rightarrow> AidenClientConfig.userId (config c))"
  shows "((\<forall>custom. RequestOptions.headers options = Some custom \<longrightarrow> custom ''Authorization'' = None)
            \<longrightarrow> buildHeaders c options ''Authorization'' = Some (''Bearer '' @ apiKey (config c)))
       \<and> ((\<forall>custom. RequestOptions.headers options = Some custom \<longrightarrow> custom ''X-User-ID'' = None)
            \<longrightarrow> buildHeaders c options ''X-User-ID'' =
                  (case effective of None \<Rightarrow> None | Some u \<Rightarrow> if u = [] then None else Some u))
       \<and> (\<forall>custom k v. RequestOptions.headers options = Some custom \<longrightarrow> custom k = Some v
            \<longrightarrow> buildHeaders c options k = Some v)"
  unfolding effective_def buildHeaders_def Let_def
  by (auto simp: map_add_def split: option.splits)

theorem buildHeaders_caller_wins_witness:
  "buildHeaders (test_client 3 (always (Resolved too_many_requests)))
     \<lparr>RequestOptions.timeout = None, userId = Some ''user-1'',
      headers = Some [''X-Trace'' \<mapsto> ''t-1''], signal = None\<rparr> ''Authorization''
     = Some ''Bearer test-key''
   \<and> buildHeaders (test_client 3 (always (Resolved too_many_requests)))
     \<lparr>RequestOptions.timeout = None, userId = Some ''user-1'',
      headers = Some [''X-Trace'' \<mapsto> ''t-1''], signal = None\<rparr> ''X-User-ID''
     = Some ''user-1''
   \<and> buildHeaders (test_client 3 (always (Resolved too_many_requests)))
     \<lparr>RequestOptions.timeout = None, userId = Some ''user-1'',
      headers = Some [''X-Trace'' \<mapsto> ''t-1''], signal = None\<rparr> ''X-Trace''
     = Some ''t-1''"
  using buildHeaders_caller_wins
    [of "\<lparr>RequestOptions.timeout = None, userId = Some ''user-1'',
          headers = Some [''X-Trace'' \<mapsto> ''t-1''], signal = None\<rparr>"
        "test_client 3 (always (Resolved too_many_requests))"]
  by (simp add: test_client_def)

subsection \<open>The timeout\<close>

text \<open>
  Claim C10. When the request carries a signal of the caller, \<^verbatim>\<open>fetchWithTimeout\<close> calls the
  transport once with the request as it is (so with that signal alone), starts no timer, and
  its result does not depend on the timeout: the timeout is not enforced for that call.
\<close>

theorem caller_signal_disables_timeout:
  assumes "RequestInit.signal init = Some sig"
  shows "fetchWithTimeout c s url init t = (fetchFn c (calls s) url init, s\<lparr>calls := Suc (calls s)\<rparr>)
       \<and> timers (snd (fetchWithTimeout c s url init t)) = timers s
       \<and> fetchWithTimeout c s url init t = fetchWithTimeout c s url init t'"
  using assms by (simp add: fetchWithTimeout_def)

theorem caller_signal_disables_timeout_witness:
  "RequestInit.signal
     \<lparr>RequestInit.method = ''GET'', headers = Map.empty, body = None,
      signal = Some (CallerSignal 0)\<rparr> = Some (CallerSignal 0)
   \<and> timers (snd (fetchWithTimeout (test_client 3 (always (Resolved too_many_requests))) io0
        ''https://api.test.com/test''
        \<lparr>RequestInit.method = ''GET'', headers = Map.empty, body = None,
         signal = Some (CallerSignal 0)\<rparr> 5)) = []
   \<and> fst (fetchWithTimeout (test_client 3 (always (Resolved too_many_requests))) io0
        ''https://api.test.com/test''
        \<lparr>RequestInit.method = ''GET'', headers = Map.empty, body = None,
         signal = Some (CallerSignal 0)\<rparr> 5) = Resolved too_many_requests"
  using caller_signal_disables_timeout
    [of "\<lparr>RequestInit.method = ''GET'', headers = Map.empty, body = None,
          signal = Some (CallerSignal 0)\<rparr>" "CallerSignal 0"
        "test_client 3 (always (Resolved too_many_requests))" io0
        "''https://api.test.com/test''" 5 5]
  by (simp add: io0_def test_client_def always_def)

text \<open>Without a signal of the caller a timer of the given delay is started.\<close>

lemma no_signal_starts_timer:
  assumes "RequestInit.signal init = None"
  shows "timers (snd (fetchWithTimeout c s url init t)) = timers s @ [t]"
    and "fst (fetchWithTimeout c s url init t) =
           fetchFn c (calls s) url (init\<lparr>RequestInit.signal := Some (ControllerSignal t)\<rparr>)"
  using assms by (simp_all add: fetchWithTimeout_def)

subsection \<open>Bookkeeping of the effects\<close>

lemma safeParseJson_io [simp]:
  "calls (snd (safeParseJson plat s r)) = calls s"
  "sleeps (snd (safeParseJson plat s r)) = sleeps s"
  "randoms (snd (safeParseJson plat s r)) = randoms s"
  "timers (snd (safeParseJson plat s r)) = timers s"
  by (simp_all add: safeParseJson_def split: sum.splits)

lemma parseRetryAfter_io [simp]:
  "calls (snd (parseRetryAfter plat s r)) = calls s"
  "sleeps (snd (parseRetryAfter plat s r)) = sleeps s"
  "randoms (snd (parseRetryAfter plat s r)) = randoms s"
  "timers (snd (parseRetryAfter plat s r)) = timers s"
  by (simp_all add: parseRetryAfter_def split: option.splits)

lemma calculateBackoff_io [simp]:
  "calls (snd (calculateBackoff plat s a)) = calls s"
  "sleeps (snd (calculateBackoff plat s a)) = sleeps s"
  "randoms (snd (calculateBackoff plat s a)) = Suc (randoms s)"
  "timers (snd (calculateBackoff plat s a)) = timers s"
  "clock_reads (snd (calculateBackoff plat s a)) = clock_reads s"
  by (simp_all add: calculateBackoff_def Let_def)

lemma sleep_io [simp]:
  "calls (sleep s ms) = calls s"
  "sleeps (sleep s ms) = sleeps s @ [ms]"
  "randoms (sleep s ms) = randoms s"
  "timers (sleep s ms) = timers s"
  "clock_reads (sleep s ms) = clock_reads s"
  by (simp_all add: sleep_def)

lemma fetchWithTimeout_io [simp]:
  "calls (snd (fetchWithTimeout c s url init t)) = Suc (calls s)"
  "sleeps (snd (fetchWithTimeout c s url init t)) = sleeps s"
  "randoms (snd (fetchWithTimeout c s url init t)) = randoms s"
  "clock_reads (snd (fetchWithTimeout c s url init t)) = clock_reads s"
  by (simp_all add: fetchWithTimeout_def split: option.splits)

lemma fetchWithTimeout_result:
  "\<exists>init'. fst (fetchWithTimeout c s url init t) = fetchFn c (calls s) url init'"
  by (auto simp add: fetchWithTimeout_def split: option.splits)


lemma parseRetryAfter_clock:
  "clock_reads s = clock_reads s' \<Longrightarrow>
   fst (parseRetryAfter plat s r) = fst (parseRetryAfter plat s' r)"
  by (simp add: parseRetryAfter_def split: option.splits)

lemma safeParseJson_clock:
  "clock_reads s = clock_reads s' \<Longrightarrow>
   fst (safeParseJson plat s r) = fst (safeParseJson plat s' r) \<and>
   clock_reads (snd (safeParseJson plat s r)) = clock_reads (snd (safeParseJson plat s' r))"
  by (simp add: safeParseJson_def split: sum.splits)

lemma calculateBackoff_value:
  "fst (calculateBackoff plat s a) = min (2 ^ a * 1000 + Math_random plat (randoms s) * 500) 30000"
  by (simp add: calculateBackoff_def Let_def)

text \<open>
  What the transport resolves to is what \<^verbatim>\<open>fetchWithTimeout\<close> returns, after one call and
  nothing else.
\<close>

lemma fetch_resolved:
  assumes "\<forall>init. \<exists>r. fetchFn c (calls s) url init = Resolved r \<and> P r"
  shows "\<exists>r s1. P r \<and> fetchWithTimeout c s url init t = (Resolved r, s1)
           \<and> calls s1 = Suc (calls s) \<and> sleeps s1 = sleeps s \<and> randoms s1 = randoms s
           \<and> clock_reads s1 = clock_reads s"
proof -
  obtain init' where i: "fst (fetchWithTimeout c s url init t) = fetchFn c (calls s) url init'"
    using fetchWithTimeout_result by blast
  obtain r where r: "fetchFn c (calls s) url init' = Resolved r" "P r"
    using assms by blast
  obtain s1 where f: "fetchWithTimeout c s url init t = (Resolved r, s1)"
    using i r(1) by (cases "fetchWithTimeout c s url init t") auto
  have "calls s1 = Suc (calls s)" "sleeps s1 = sleeps s" "randoms s1 = randoms s"
    "clock_reads s1 = clock_reads s"
    using fetchWithTimeout_io[of c s url init t] f by simp_all
  with f r(2) show ?thesis by blast
qed

subsection \<open>The catch block\<close>

lemma catch_block_typed:
  "catch_block plat c url t attempt s (Typed e) = (Throw (Typed e), s)"
  by (simp add: catch_block_def)

lemma catch_block_abort:
  assumes "is_AbortError e"
  shows "catch_block plat c url t attempt s (Untyped e) =
           (Throw (Typed (TimeoutError
              (''Request timed out after '' @ Number_toString plat t @ ''ms'') t)), s)"
  using assms by (cases e) (simp_all add: catch_block_def)

lemma catch_block_other:
  assumes "\<not> is_AbortError e"
  shows "\<exists>err. kind err = Connection \<and>
           catch_block plat c url t attempt s (Untyped e) =
             (Continue err,
              if attempt < maxRetries c
              then sleep (snd (calculateBackoff plat s attempt)) (fst (calculateBackoff plat s attempt))
              else s)"
  using assms
  by (auto simp: catch_block_def ConnectionError_def AidenError_def split: prod.splits)

lemma catch_block_TypeError:
  "\<exists>err. kind err = Connection \<and> aiden_error.code err = ''CONNECTION_ERROR''
     \<and> catch_block plat c url t attempt s (Untyped (JsTypeError m)) =
         (Continue err,
          if attempt < maxRetries c
          then sleep (snd (calculateBackoff plat s attempt)) (fst (calculateBackoff plat s attempt))
          else s)"
  by (auto simp: catch_block_def ConnectionError_def AidenError_def split: prod.splits)


lemma catch_block_throws_typed:
  "catch_block plat c url t attempt s err = (Throw x, s') \<Longrightarrow> \<exists>e. x = Typed e"
  by (auto simp: catch_block_def split: thrown.splits sum.splits if_splits prod.splits)

subsection \<open>The classifier on a parsed body\<close>



lemma unchecked_no_error_member:
  assumes "json r = Inr parsed" and "\<not> has_error_member parsed"
  shows "createErrorFromResponse_unchecked plat st (fst (safeParseJson plat s r)) ra =
           Inl cannot_destructure"
  using assms by (simp add: safeParseJson_def createErrorFromResponse_unchecked_def)

subsection \<open>A 429 response in the try block\<close>

lemma try_block_429_retry:
  assumes T: "\<forall>init. \<exists>r. fetchFn c (calls s) url init = Resolved r \<and> status r = 429 \<and> \<not> ok r \<and> P r"
      and more: "attempt < maxRetries c"
  shows "\<exists>r s5. P r
           \<and> try_block plat c url m h b sg t attempt s =
               (case createErrorFromResponse_unchecked plat 429 (fst (safeParseJson plat s r))
                       (Some (fst (parseRetryAfter plat (snd (safeParseJson plat s r)) r))) of
                  Inl e \<Rightarrow> Inl (Untyped e)
                | Inr lastError \<Rightarrow> Inr (Continue lastError), s5)
           \<and> calls s5 = Suc (calls s) \<and> randoms s5 = Suc (randoms s)
           \<and> sleeps s5 = sleeps s @
               [min (fst (parseRetryAfter plat (snd (safeParseJson plat s r)) r))
                    (min (2 ^ attempt * 1000 + Math_random plat (randoms s) * 500) 30000)]"
proof -
  let ?init = "\<lparr>RequestInit.method = method_name m, headers = h,
       body = map_option (JSON_stringify plat) b, signal = sg\<rparr>"
  from fetch_resolved[OF T, of ?init t]
  obtain r s1 where r: "status r = 429 \<and> \<not> ok r \<and> P r"
    and f: "fetchWithTimeout c s url ?init t = (Resolved r, s1)"
    and s1: "calls s1 = Suc (calls s)" "sleeps s1 = sleeps s" "randoms s1 = randoms s"
      "clock_reads s1 = clock_reads s"
    by blast
  obtain eb s2 where p: "safeParseJson plat s1 r = (eb, s2)"
    by (cases "safeParseJson plat s1 r")
  have eb: "eb = fst (safeParseJson plat s r)"
    and s2: "clock_reads s2 = clock_reads (snd (safeParseJson plat s r))" "randoms s2 = randoms s"
      "sleeps s2 = sleeps s" "calls s2 = Suc (calls s)"
    using safeParseJson_clock[OF s1(4), of plat r] safeParseJson_io[of plat s1 r] p s1
    by simp_all
  obtain ra s3 where q: "parseRetryAfter plat s2 r = (ra, s3)"
    by (cases "parseRetryAfter plat s2 r")
  have ra: "ra = fst (parseRetryAfter plat (snd (safeParseJson plat s r)) r)"
    using parseRetryAfter_clock[OF s2(1), of plat r] q by simp
  have s3: "randoms s3 = randoms s" "sleeps s3 = sleeps s" "calls s3 = Suc (calls s)"
    using parseRetryAfter_io[of plat s2 r] q s2 by simp_all
  obtain bo s4 where cb: "calculateBackoff plat s3 attempt = (bo, s4)"
    by (cases "calculateBackoff plat s3 attempt")
  have bo: "bo = min (2 ^ attempt * 1000 + Math_random plat (randoms s) * 500) 30000"
    using calculateBackoff_value[of plat s3 attempt] cb s3 by simp
  have s4: "sleeps s4 = sleeps s" "calls s4 = Suc (calls s)" "randoms s4 = Suc (randoms s)"
    using calculateBackoff_io[of plat s3 attempt] cb s3 by simp_all
  have "try_block plat c url m h b sg t attempt s =
          (case createErrorFromResponse_unchecked plat 429 eb (Some ra) of
             Inl e \<Rightarrow> Inl (Untyped e)
           | Inr lastError \<Rightarrow> Inr (Continue lastError), sleep s4 (min ra bo))"
    using r f p q cb more by (simp add: try_block_def Let_def split: sum.splits)
  moreover have "calls (sleep s4 (min ra bo)) = Suc (calls s)"
    "randoms (sleep s4 (min ra bo)) = Suc (randoms s)"
    "sleeps (sleep s4 (min ra bo)) = sleeps s @ [min ra bo]"
    using s4 by simp_all
  ultimately show ?thesis using r eb ra bo by blast
qed

lemma try_block_429_last:
  assumes T: "\<forall>init. \<exists>r. fetchFn c (calls s) url init = Resolved r \<and> status r = 429 \<and> \<not> ok r \<and> P r"
      and last: "\<not> attempt < maxRetries c"
  shows "\<exists>r s3 ra. P r
           \<and> try_block plat c url m h b sg t attempt s =
               (case createErrorFromResponse_unchecked plat 429 (fst (safeParseJson plat s r))
                       (Some ra) of
                  Inl e \<Rightarrow> Inl (Untyped e)
                | Inr err \<Rightarrow> Inl (Typed err), s3)
           \<and> calls s3 = Suc (calls s) \<and> sleeps s3 = sleeps s"
proof -
  let ?init = "\<lparr>RequestInit.method = method_name m, headers = h,
       body = map_option (JSON_stringify plat) b, signal = sg\<rparr>"
  from fetch_resolved[OF T, of ?init t]
  obtain r s1 where r: "status r = 429 \<and> \<not> ok r \<and> P r"
    and f: "fetchWithTimeout c s url ?init t = (Resolved r, s1)"
    and s1: "calls s1 = Suc (calls s)" "sleeps s1 = sleeps s" "randoms s1 = randoms s"
      "clock_reads s1 = clock_reads s"
    by blast
  obtain eb s2 where p: "safeParseJson plat s1 r = (eb, s2)"
    by (cases "safeParseJson plat s1 r")
  have eb: "eb = fst (safeParseJson plat s r)"
    and s2: "sleeps s2 = sleeps s" "calls s2 = Suc (calls s)"
    using safeParseJson_clock[OF s1(4), of plat r] safeParseJson_io[of plat s1 r] p s1
    by simp_all
  obtain ra s3 where q: "parseRetryAfter plat s2 r = (ra, s3)"
    by (cases "parseRetryAfter plat s2 r")
  have s3: "sleeps s3 = sleeps s" "calls s3 = Suc (calls s)"
    using parseRetryAfter_io[of plat s2 r] q s2 by simp_all
  have "try_block plat c url m h b sg t attempt s =
          (case createErrorFromResponse_unchecked plat 429 eb (Some ra) of
             Inl e \<Rightarrow> Inl (Untyped e)
           | Inr err \<Rightarrow> Inl (Typed err), s3)"
    using r f p q last by (simp add: try_block_def Let_def split: sum.splits)
  with r eb s3 show ?thesis by blast
qed

subsection \<open>Backoff\<close>


lemma attempt_429_retry_no_error_member:
  assumes T: "\<forall>init. \<exists>r. fetchFn c (calls s) url init = Resolved r \<and> status r = 429 \<and> \<not> ok r
                \<and> (\<exists>parsed. json r = Inr parsed \<and> \<not> has_error_member parsed) \<and> P r"
      and more: "attempt < maxRetries c"
  shows "\<exists>r e s'. P r \<and> attempt_body plat c url m h b sg t attempt s = (Continue e, s')
           \<and> kind e = Connection \<and> calls s' = Suc (calls s)
           \<and> sleeps s' = sleeps s @
               [min (fst (parseRetryAfter plat (snd (safeParseJson plat s r)) r))
                    (min (2 ^ attempt * 1000 + Math_random plat (randoms s) * 500) 30000),
                min (2 ^ attempt * 1000 + Math_random plat (Suc (randoms s)) * 500) 30000]"
proof -
  let ?Q = "\<lambda>r. (\<exists>parsed. json r = Inr parsed \<and> \<not> has_error_member parsed) \<and> P r"
  from try_block_429_retry[of c s url ?Q attempt plat m h b sg t, OF T more]
  obtain r s5 where r: "?Q r"
    and tb: "try_block plat c url m h b sg t attempt s =
               (case createErrorFromResponse_unchecked plat 429 (fst (safeParseJson plat s r))
                       (Some (fst (parseRetryAfter plat (snd (safeParseJson plat s r)) r))) of
                  Inl e \<Rightarrow> Inl (Untyped e)
                | Inr lastError \<Rightarrow> Inr (Continue lastError), s5)"
    and s5: "calls s5 = Suc (calls s)" "randoms s5 = Suc (randoms s)"
      "sleeps s5 = sleeps s @
               [min (fst (parseRetryAfter plat (snd (safeParseJson plat s r)) r))
                    (min (2 ^ attempt * 1000 + Math_random plat (randoms s) * 500) 30000)]"
    by blast
  from r obtain parsed where "json r = Inr parsed" "\<not> has_error_member parsed" by blast
  from unchecked_no_error_member[OF this, of plat 429 s
          "Some (fst (parseRetryAfter plat (snd (safeParseJson plat s r)) r))"] tb
  have ab: "attempt_body plat c url m h b sg t attempt s =
      catch_block plat c url t attempt s5 (Untyped cannot_destructure)"
    by (simp add: attempt_body_def)
  from catch_block_TypeError[of plat c url t attempt s5]
  obtain err where err: "kind err = Connection"
    "catch_block plat c url t attempt s5 (Untyped cannot_destructure) =
       (Continue err,
        sleep (snd (calculateBackoff plat s5 attempt)) (fst (calculateBackoff plat s5 attempt)))"
    using more unfolding cannot_destructure_def by auto
  let ?s' = "sleep (snd (calculateBackoff plat s5 attempt)) (fst (calculateBackoff plat s5 attempt))"
  have "calls ?s' = Suc (calls s)"
    "sleeps ?s' = sleeps s @
               [min (fst (parseRetryAfter plat (snd (safeParseJson plat s r)) r))
                    (min (2 ^ attempt * 1000 + Math_random plat (randoms s) * 500) 30000),
                min (2 ^ attempt * 1000 + Math_random plat (Suc (randoms s)) * 500) 30000]"
    using s5 by (simp_all add: calculateBackoff_value)
  with ab err r show ?thesis by auto
qed




subsection \<open>Retries\<close>

text \<open>
  When every attempt but the last goes on to the next one, and the last one throws or
  falls out of the \<^verbatim>\<open>catch\<close> block, the loop makes \<open>maxRetries + 1\<close> calls and throws the
  error of the last attempt.
\<close>

lemma retry_loop_exhausts:
  assumes step: "\<And>attempt s. attempt < maxRetries c \<Longrightarrow>
             \<exists>e s'. attempt_body plat c url m h b sg t attempt s = (Continue e, s')
               \<and> calls s' = Suc (calls s)"
      and last: "\<And>s. \<exists>e s'. (attempt_body plat c url m h b sg t (maxRetries c) s = (Throw (Typed e), s')
                           \<or> attempt_body plat c url m h b sg t (maxRetries c) s = (Continue e, s'))
               \<and> calls s' = Suc (calls s) \<and> Q e"
  shows "attempt \<le> maxRetries c \<Longrightarrow>
         \<exists>e s'. retry_loop plat c url m h b sg t attempt lastError s = (Inl (Typed e), s')
           \<and> calls s' = calls s + (maxRetries c - attempt + 1) \<and> Q e"
proof (induction "maxRetries c - attempt" arbitrary: attempt lastError s)
  case 0
  then have eq: "attempt = maxRetries c" by simp
  from last[of s] obtain e s' where l:
    "attempt_body plat c url m h b sg t (maxRetries c) s = (Throw (Typed e), s')
     \<or> attempt_body plat c url m h b sg t (maxRetries c) s = (Continue e, s')"
    "calls s' = Suc (calls s)" "Q e"
    by blast
  have "retry_loop plat c url m h b sg t (Suc (maxRetries c)) (Some e) s' = (Inl (Typed e), s')"
    by (subst retry_loop.simps) simp
  with l(1) have "retry_loop plat c url m h b sg t attempt lastError s = (Inl (Typed e), s')"
    unfolding eq by (subst retry_loop.simps) auto
  with l(2,3) eq show ?case by simp
next
  case (Suc d)
  then have more: "attempt < maxRetries c" by simp
  from step[OF more, of s]
  obtain e s' where st: "attempt_body plat c url m h b sg t attempt s = (Continue e, s')"
    "calls s' = Suc (calls s)"
    by blast
  have "d = maxRetries c - Suc attempt" "Suc attempt \<le> maxRetries c"
    using Suc.hyps(2) more by simp_all
  from Suc.hyps(1)[OF this, of "Some e" s']
  obtain e' s'' where rest:
    "retry_loop plat c url m h b sg t (Suc attempt) (Some e) s' = (Inl (Typed e'), s'')"
    "calls s'' = calls s' + (maxRetries c - Suc attempt + 1)" "Q e'"
    by blast
  have "calls s'' = calls s + (maxRetries c - attempt + 1)"
    using st(2) rest(2) more by simp
  moreover have "retry_loop plat c url m h b sg t attempt lastError s = (Inl (Typed e'), s'')"
    using st(1) rest(1) more by (subst retry_loop.simps) simp
  ultimately show ?case using rest(3) by blast
qed


lemma attempt_429_last_no_error_member:
  assumes T: "\<forall>init. \<exists>r. fetchFn c (calls s) url init = Resolved r \<and> status r = 429 \<and> \<not> ok r
                \<and> (\<exists>parsed. json r = Inr parsed \<and> \<not> has_error_member parsed)"
      and last: "\<not> attempt < maxRetries c"
  shows "\<exists>e s'. attempt_body plat c url m h b sg t attempt s = (Continue e, s')
           \<and> calls s' = Suc (calls s) \<and> sleeps s' = sleeps s
           \<and> kind e = Connection \<and> aiden_error.code e = ''CONNECTION_ERROR''"
proof -
  let ?Q = "\<lambda>r. \<exists>parsed. json r = Inr parsed \<and> \<not> has_error_member parsed"
  from try_block_429_last[of c s url ?Q attempt plat m h b sg t, OF T last]
  obtain r s3 ra where r: "?Q r"
    and tb: "try_block plat c url m h b sg t attempt s =
               (case createErrorFromResponse_unchecked plat 429 (fst (safeParseJson plat s r))
                       (Some ra) of
                  Inl e \<Rightarrow> Inl (Untyped e)
                | Inr err \<Rightarrow> Inl (Typed err), s3)"
    and s3: "calls s3 = Suc (calls s)" "sleeps s3 = sleeps s"
    by blast
  from r obtain parsed where "json r = Inr parsed" "\<not> has_error_member parsed" by blast
  from unchecked_no_error_member[OF this, of plat 429 s "Some ra"] tb
  have ab: "attempt_body plat c url m h b sg t attempt s =
      catch_block plat c url t attempt s3 (Untyped cannot_destructure)"
    by (simp add: attempt_body_def)
  from catch_block_TypeError[of plat c url t attempt s3]
  obtain err where "kind err = Connection" "aiden_error.code err = ''CONNECTION_ERROR''"
    "catch_block plat c url t attempt s3 (Untyped cannot_destructure) = (Continue err, s3)"
    using last unfolding cannot_destructure_def by auto
  with ab s3 show ?thesis by simp
qed


lemma retry_loop_429_no_error_member:
  assumes T: "\<forall>k init. \<exists>r. fetchFn c k url init = Resolved r \<and> status r = 429 \<and> \<not> ok r
                \<and> (\<exists>parsed. json r = Inr parsed \<and> \<not> has_error_member parsed)"
      and le: "attempt \<le> maxRetries c"
  shows "\<exists>e s'. retry_loop plat c url m h b sg t attempt lastError s = (Inl (Typed e), s')
           \<and> calls s' = calls s + (maxRetries c - attempt + 1)
           \<and> kind e = Connection \<and> aiden_error.code e = ''CONNECTION_ERROR''"
proof (rule retry_loop_exhausts[where Q = "\<lambda>e. kind e = Connection \<and> aiden_error.code e = ''CONNECTION_ERROR''",
          OF _ _ le])
  fix attempt and s :: io
  assume more: "attempt < maxRetries c"
  from T have "\<forall>init. \<exists>r. fetchFn c (calls s) url init = Resolved r \<and> status r = 429 \<and> \<not> ok r
                \<and> (\<exists>parsed. json r = Inr parsed \<and> \<not> has_error_member parsed) \<and> True"
    by simp
  from attempt_429_retry_no_error_member[OF this more, of plat m h b sg t]
  show "\<exists>e s'. attempt_body plat c url m h b sg t attempt s = (Continue e, s')
          \<and> calls s' = Suc (calls s)"
    by blast
next
  fix s :: io
  from T have "\<forall>init. \<exists>r. fetchFn c (calls s) url init = Resolved r \<and> status r = 429 \<and> \<not> ok r
                \<and> (\<exists>parsed. json r = Inr parsed \<and> \<not> has_error_member parsed)"
    by simp
  from attempt_429_last_no_error_member[OF this, of "maxRetries c" plat m h b sg t]
  show "\<exists>e s'. (attempt_body plat c url m h b sg t (maxRetries c) s = (Throw (Typed e), s')
                 \<or> attempt_body plat c url m h b sg t (maxRetries c) s = (Continue e, s'))
          \<and> calls s' = Suc (calls s)
          \<and> (kind e = Connection \<and> aiden_error.code e = ''CONNECTION_ERROR'')"
    by auto
qed

lemma new_HttpClient_test:
  "new_HttpClient (config (test_client n f)) None = Inr (test_client n f)"
  by (simp add: new_HttpClient_def test_client_def)

lemma buildUrl_test:
  "buildUrl test_platform (test_client n f) (path get_test) (query get_test) =
     Inr ''https://api.test.com/test''"
  by (simp add: buildUrl_def test_platform_def test_client_def get_test_def startsWith_def)




text \<open>
  The 404 test of the repository: no retries, one call, a \<^verbatim>\<open>NotFoundError\<close> with the request
  id of the response.
\<close>

lemma not_found_test:
  "\<exists>e s'. requestRaw test_platform (test_client 0 (always (Resolved not_found))) get_test io0 =
            (Inl (Typed e), s')
     \<and> kind e = NotFound \<and> aiden_error.name e = ''NotFoundError''
     \<and> aiden_error.code e = ''NOT_FOUND'' \<and> aiden_error.status e = 404
     \<and> aiden_error.requestId e = ''req-1'' \<and> calls s' = 1 \<and> sleeps s' = []"
proof -
  have d: "as_ApiErrorResponse not_found_json = Some not_found_body"
    "has_error_member not_found_json"
    by (simp_all add: not_found_json_def not_found_body_def as_ApiErrorResponse_def
          as_ApiError_def as_ResponseMeta_def has_error_member_def)
  have "retry_loop test_platform (test_client 0 (always (Resolved not_found)))
          ''https://api.test.com/test'' GET h None None 30000 0 None io0 =
        (Inl (Typed (createErrorFromResponse 404 not_found_body None)),
         io0\<lparr>calls := 1, timers := [30000]\<rparr>)" for h
    by (subst retry_loop.simps)
       (simp add: attempt_body_def try_block_def fetchWithTimeout_def safeParseJson_def
          test_client_def always_def not_found_def io0_def
          createErrorFromResponse_unchecked_def d catch_block_typed)
  then show ?thesis
    using buildUrl_test[of 0 "always (Resolved not_found)"]
    by (simp add: requestRaw_def Let_def get_test_def test_client_def io0_def
          createErrorFromResponse_def error_ctor_defs not_found_body_def)
qed

subsection \<open>Exceptions of the transport\<close>

lemma attempt_body_rejected:
  assumes "\<forall>init. \<exists>e. fetchFn c (calls s) url init = Rejected (Untyped e) \<and> P e"
  shows "\<exists>e s1. P e \<and> calls s1 = Suc (calls s) \<and> sleeps s1 = sleeps s \<and>
           attempt_body plat c url m h b sg t attempt s =
             catch_block plat c url t attempt s1 (Untyped e)"
proof -
  let ?init = "\<lparr>RequestInit.method = method_name m, headers = h,
       body = map_option (JSON_stringify plat) b, signal = sg\<rparr>"
  obtain init' where i: "fst (fetchWithTimeout c s url ?init t) = fetchFn c (calls s) url init'"
    using fetchWithTimeout_result by blast
  obtain e where e: "fetchFn c (calls s) url init' = Rejected (Untyped e)" "P e"
    using assms by blast
  obtain s1 where f: "fetchWithTimeout c s url ?init t = (Rejected (Untyped e), s1)"
    using i e by (cases "fetchWithTimeout c s url ?init t") auto
  have "calls s1 = Suc (calls s)" "sleeps s1 = sleeps s"
    using fetchWithTimeout_io[of c s url ?init t] f by simp_all
  then show ?thesis using f e(2) by (auto simp: attempt_body_def try_block_def)
qed

lemma retry_loop_abort:
  assumes "attempt \<le> maxRetries c"
      and "\<forall>init. \<exists>e. fetchFn c (calls s) url init = Rejected (Untyped e) \<and> is_AbortError e"
  shows "\<exists>err s'. retry_loop plat c url m h b sg t attempt lastError s = (Inl (Typed err), s')
           \<and> kind err = Timeout \<and> timeoutMs err = Some t
           \<and> calls s' = Suc (calls s) \<and> sleeps s' = sleeps s"
proof -
  from attempt_body_rejected[OF assms(2), of plat m h b sg t attempt]
  obtain e s1 where s1: "is_AbortError e" "calls s1 = Suc (calls s)" "sleeps s1 = sleeps s"
    "attempt_body plat c url m h b sg t attempt s = catch_block plat c url t attempt s1 (Untyped e)"
    by blast
  show ?thesis
    using assms(1) s1 catch_block_abort[OF s1(1), of plat c url t attempt s1]
    by (subst retry_loop.simps) (simp add: TimeoutError_def AidenError_def)
qed

lemma retry_loop_other_step:
  assumes "attempt \<le> maxRetries c"
      and "\<forall>init. \<exists>e. fetchFn c (calls s) url init = Rejected (Untyped e) \<and> \<not> is_AbortError e"
  shows "\<exists>err s'. kind err = Connection \<and> calls s' = Suc (calls s)
           \<and> length (sleeps s') = length (sleeps s) + (if attempt < maxRetries c then 1 else 0)
           \<and> retry_loop plat c url m h b sg t attempt lastError s =
               retry_loop plat c url m h b sg t (Suc attempt) (Some err) s'"
proof -
  from attempt_body_rejected[OF assms(2), of plat m h b sg t attempt]
  obtain e s1 where s1: "\<not> is_AbortError e" "calls s1 = Suc (calls s)" "sleeps s1 = sleeps s"
    "attempt_body plat c url m h b sg t attempt s = catch_block plat c url t attempt s1 (Untyped e)"
    by blast
  from catch_block_other[OF s1(1), of plat c url t attempt s1]
  obtain err where err: "kind err = Connection"
    "catch_block plat c url t attempt s1 (Untyped e) =
       (Continue err,
        if attempt < maxRetries c
        then sleep (snd (calculateBackoff plat s1 attempt)) (fst (calculateBackoff plat s1 attempt))
        else s1)"
    by blast
  let ?s' = "if attempt < maxRetries c
        then sleep (snd (calculateBackoff plat s1 attempt)) (fst (calculateBackoff plat s1 attempt))
        else s1"
  have "calls ?s' = Suc (calls s)"
    "length (sleeps ?s') = length (sleeps s) + (if attempt < maxRetries c then 1 else 0)"
    using s1 by simp_all
  moreover have "retry_loop plat c url m h b sg t attempt lastError s =
               retry_loop plat c url m h b sg t (Suc attempt) (Some err) ?s'"
    using assms(1) s1(4) err(2) by (subst retry_loop.simps) simp
  ultimately show ?thesis using err(1) by blast
qed

lemma retry_loop_others:
  assumes T: "\<forall>k init. \<exists>e. fetchFn c k url init = Rejected (Untyped e) \<and> \<not> is_AbortError e"
  shows "attempt \<le> maxRetries c \<Longrightarrow>
         \<exists>err s'. retry_loop plat c url m h b sg t attempt lastError s = (Inl (Typed err), s')
           \<and> kind err = Connection
           \<and> calls s' = calls s + (maxRetries c - attempt + 1)
           \<and> length (sleeps s') = length (sleeps s) + (maxRetries c - attempt)"
proof (induction "maxRetries c - attempt" arbitrary: attempt lastError s)
  case 0
  then have eq: "attempt = maxRetries c" by simp
  from T have e: "\<forall>init. \<exists>e. fetchFn c (calls s) url init = Rejected (Untyped e) \<and> \<not> is_AbortError e"
    by blast
  from retry_loop_other_step[OF "0.prems" e, of plat m h b sg t lastError]
  obtain err s' where st: "kind err = Connection" "calls s' = Suc (calls s)"
    "length (sleeps s') = length (sleeps s) + (if attempt < maxRetries c then 1 else 0)"
    "retry_loop plat c url m h b sg t attempt lastError s =
       retry_loop plat c url m h b sg t (Suc attempt) (Some err) s'"
    by blast
  have "retry_loop plat c url m h b sg t (Suc attempt) (Some err) s' = (Inl (Typed err), s')"
    using eq by (subst retry_loop.simps) simp
  with st eq show ?case by simp
next
  case (Suc d)
  then have more: "attempt < maxRetries c" by simp
  from T have e: "\<forall>init. \<exists>e. fetchFn c (calls s) url init = Rejected (Untyped e) \<and> \<not> is_AbortError e"
    by blast
  from retry_loop_other_step[OF Suc.prems e, of plat m h b sg t lastError]
  obtain err s' where st: "kind err = Connection" "calls s' = Suc (calls s)"
    "length (sleeps s') = length (sleeps s) + (if attempt < maxRetries c then 1 else 0)"
    "retry_loop plat c url m h b sg t attempt lastError s =
       retry_loop plat c url m h b sg t (Suc attempt) (Some err) s'"
    by blast
  have "d = maxRetries c - Suc attempt" "Suc attempt \<le> maxRetries c"
    using Suc.hyps(2) more by simp_all
  from Suc.hyps(1)[OF this, of "Some err" s']
  obtain err' s'' where rest:
    "retry_loop plat c url m h b sg t (Suc attempt) (Some err) s' = (Inl (Typed err'), s'')"
    "kind err' = Connection"
    "calls s'' = calls s' + (maxRetries c - Suc attempt + 1)"
    "length (sleeps s'') = length (sleeps s') + (maxRetries c - Suc attempt)"
    by blast
  have "calls s'' = calls s + (maxRetries c - attempt + 1)"
    "length (sleeps s'') = length (sleeps s) + (maxRetries c - attempt)"
    using st(2,3) rest(3,4) more by simp_all
  with st(4) rest(1,2) show ?case by simp
qed

text \<open>
  Claim C9. When the fetch of an attempt rejects with an \<^verbatim>\<open>AbortError\<close> (the \<^verbatim>\<open>DOMException\<close>
  that a fetch rejects with when the timeout timer aborts its signal), the retry loop of
  \<^verbatim>\<open>requestRaw\<close> throws a \<^verbatim>\<open>TimeoutError\<close> carrying the timeout at once:
  one call of the transport, no sleep, no further attempt. Any other exception that is not
  an \<^verbatim>\<open>AidenError\<close> becomes a \<^verbatim>\<open>ConnectionError\<close> and the loop goes on to the next attempt,
  after a backoff sleep when an attempt remains; when every call fails in this way the
  transport is called \<open>maxRetries + 1\<close> times in all and the \<^verbatim>\<open>ConnectionError\<close> is thrown.
\<close>

theorem abort_is_fatal_others_retry:
  "(attempt \<le> maxRetries c
      \<and> (\<forall>init. \<exists>e. fetchFn c (calls s) url init = Rejected (Untyped e) \<and> is_AbortError e) \<longrightarrow>
      (\<exists>err s'. retry_loop plat c url m h b sg t attempt lastError s = (Inl (Typed err), s')
         \<and> kind err = Timeout \<and> timeoutMs err = Some t
         \<and> calls s' = Suc (calls s) \<and> sleeps s' = sleeps s))
   \<and> (attempt \<le> maxRetries c
      \<and> (\<forall>init. \<exists>e. fetchFn c (calls s) url init = Rejected (Untyped e) \<and> \<not> is_AbortError e) \<longrightarrow>
      (\<exists>err s'. kind err = Connection \<and> calls s' = Suc (calls s)
         \<and> length (sleeps s') = length (sleeps s) + (if attempt < maxRetries c then 1 else 0)
         \<and> retry_loop plat c url m h b sg t attempt lastError s =
             retry_loop plat c url m h b sg t (Suc attempt) (Some err) s'))
   \<and> (attempt \<le> maxRetries c
      \<and> (\<forall>k init. \<exists>e. fetchFn c k url init = Rejected (Untyped e) \<and> \<not> is_AbortError e) \<longrightarrow>
      (\<exists>err s'. retry_loop plat c url m h b sg t attempt lastError s = (Inl (Typed err), s')
         \<and> kind err = Connection
         \<and> calls s' = calls s + (maxRetries c - attempt + 1)
         \<and> length (sleeps s') = length (sleeps s) + (maxRetries c - attempt)))"
  using retry_loop_abort[of attempt c s url plat m h b sg t lastError]
        retry_loop_other_step[of attempt c s url plat m h b sg t lastError]
        retry_loop_others[of c url attempt plat m h b sg t lastError s]
  by blast

text \<open>
  With three retries configured, an abort on the first call ends the request after one
  call, and a transport that is never reachable is called four times, with three sleeps.
\<close>

theorem abort_is_fatal_others_retry_witness:
  "(\<exists>err s'. retry_loop test_platform
        (test_client 3 (always (Rejected (Untyped (JsDOMException ''AbortError'' ''aborted'')))))
        ''https://api.test.com/test'' GET Map.empty None None 30000 0 None io0
        = (Inl (Typed err), s')
      \<and> kind err = Timeout \<and> timeoutMs err = Some 30000 \<and> calls s' = 1 \<and> sleeps s' = [])
   \<and> (\<exists>err s'. retry_loop test_platform
        (test_client 3 (always (Rejected (Untyped (JsTypeError ''fetch failed'')))))
        ''https://api.test.com/test'' GET Map.empty None None 30000 0 None io0
        = (Inl (Typed err), s')
      \<and> kind err = Connection \<and> calls s' = 4 \<and> length (sleeps s') = 3)"
proof -
  let ?A = "test_client 3 (always (Rejected (Untyped (JsDOMException ''AbortError'' ''aborted''))))"
  let ?N = "test_client 3 (always (Rejected (Untyped (JsTypeError ''fetch failed''))))"
  have a: "0 \<le> maxRetries ?A \<and>
     (\<forall>init. \<exists>e. fetchFn ?A (calls io0) ''https://api.test.com/test'' init = Rejected (Untyped e)
        \<and> is_AbortError e)"
    by (simp add: test_client_def always_def)
  have n: "0 \<le> maxRetries ?N \<and>
     (\<forall>k init. \<exists>e. fetchFn ?N k ''https://api.test.com/test'' init = Rejected (Untyped e)
        \<and> \<not> is_AbortError e)"
    by (simp add: test_client_def always_def)
  from a abort_is_fatal_others_retry
          [of 0 ?A io0 "''https://api.test.com/test''" test_platform GET Map.empty None None 30000 None]
  obtain err s' where 1:
    "retry_loop test_platform ?A ''https://api.test.com/test'' GET Map.empty None None 30000 0
       None io0 = (Inl (Typed err), s')"
    "kind err = Timeout" "timeoutMs err = Some 30000" "calls s' = Suc (calls io0)"
    "sleeps s' = sleeps io0"
    by blast
  from n abort_is_fatal_others_retry
          [of 0 ?N io0 "''https://api.test.com/test''" test_platform GET Map.empty None None 30000 None]
  obtain err2 s2 where 2:
    "retry_loop test_platform ?N ''https://api.test.com/test'' GET Map.empty None None 30000 0
       None io0 = (Inl (Typed err2), s2)"
    "kind err2 = Connection" "calls s2 = calls io0 + (maxRetries ?N - 0 + 1)"
    "length (sleeps s2) = length (sleeps io0) + (maxRetries ?N - 0)"
    by blast
  have "calls s' = 1" "sleeps s' = []" using 1(4,5) by (simp_all add: io0_def)
  moreover have "calls s2 = 4" "length (sleeps s2) = 3"
    using 2(3,4) by (simp_all add: io0_def test_client_def)
  ultimately show ?thesis using 1(1,2,3) 2(1,2) by blast
qed

subsection \<open>Typed and untyped failures\<close>

text \<open>Once the URL is built, whatever the retry loop throws is an \<^verbatim>\<open>AidenError\<close>.\<close>

lemma try_block_no_throw:
  "try_block plat c url m h b sg t attempt s = (Inr res, s') \<Longrightarrow> res \<noteq> Throw x"
  by (auto simp: try_block_def Let_def
           split: prod.splits fetch_result.splits if_splits sum.splits)

lemma attempt_body_throws_typed:
  "attempt_body plat c url m h b sg t attempt s = (Throw x, s') \<Longrightarrow> \<exists>e. x = Typed e"
  by (auto simp: attempt_body_def split: prod.splits sum.splits
           dest: catch_block_throws_typed try_block_no_throw)

lemma retry_loop_throws_typed:
  "retry_loop plat c url m h b sg t attempt lastError s = (Inl x, s') \<Longrightarrow> \<exists>e. x = Typed e"
proof (induction plat c url m h b sg t attempt lastError s rule: retry_loop.induct)
  case (1 plat c url m h b sg t attempt lastError s)
  show ?case
  proof (cases "attempt \<le> maxRetries c")
    case False
    with "1.prems" show ?thesis by (subst (asm) retry_loop.simps) auto
  next
    case True
    obtain res s1 where ab: "attempt_body plat c url m h b sg t attempt s = (res, s1)"
      by (cases "attempt_body plat c url m h b sg t attempt s")
    show ?thesis
    proof (cases res)
      case (Return response)
      with "1.prems" True ab show ?thesis by (subst (asm) retry_loop.simps) auto
    next
      case (Throw y)
      with "1.prems" True ab have "x = y" by (subst (asm) retry_loop.simps) auto
      with Throw ab attempt_body_throws_typed show ?thesis by blast
    next
      case (Continue e)
      with "1.prems" True ab
      have "retry_loop plat c url m h b sg t (Suc attempt) (Some e) s1 = (Inl x, s')"
        by (subst (asm) retry_loop.simps) auto
      from "1.IH"[OF True ab[symmetric] Continue this] show ?thesis .
    qed
  qed
qed

text \<open>Before the loop, a URL that cannot be built is thrown as it is.\<close>

lemma requestRaw_invalid_url:
  "buildUrl plat c (path options) (query options) = Inl e \<Longrightarrow>
   requestRaw plat c options s = (Inl (Untyped e), s)"
  by (simp add: requestRaw_def)

text \<open>A response that is \<open>ok\<close> ends the loop at the first attempt, unopened.\<close>

lemma retry_loop_ok:
  assumes "\<forall>init. fetchFn c (calls s) url init = Resolved r" and "ok r"
  shows "\<exists>s'. retry_loop plat c url m h b sg t 0 lastError s = (Inr r, s')
           \<and> calls s' = Suc (calls s)"
proof -
  let ?init = "\<lparr>RequestInit.method = method_name m, headers = h,
       body = map_option (JSON_stringify plat) b, signal = sg\<rparr>"
  obtain s1 where f: "fetchWithTimeout c s url ?init t = (Resolved r, s1)"
    using assms(1) fetchWithTimeout_result[of c s url ?init t]
    by (cases "fetchWithTimeout c s url ?init t") auto
  have "calls s1 = Suc (calls s)"
    using fetchWithTimeout_io[of c s url ?init t] f by simp
  then show ?thesis
    using f assms(2) by (subst retry_loop.simps) (simp add: attempt_body_def try_block_def)
qed

lemma request_not_json:
  assumes "buildUrl plat c (path options) (query options) = Inr url"
      and "\<forall>k init. fetchFn c k url init = Resolved r" and "ok r" and "json r = Inl e"
  shows "\<exists>s'. request plat c options s = (Inl (Untyped e), s') \<and> calls s' = Suc (calls s)"
    and "\<exists>s'. requestPaginated plat c options s = (Inl (Untyped e), s') \<and> calls s' = Suc (calls s)"
proof -
  from assms(2) have "\<forall>init. fetchFn c (calls s) url init = Resolved r" by blast
  from retry_loop_ok[OF this assms(3)]
  have "\<exists>s'. requestRaw plat c options s = (Inr r, s') \<and> calls s' = Suc (calls s)"
    using assms(1) by (simp add: requestRaw_def Let_def)
  then show "\<exists>s'. request plat c options s = (Inl (Untyped e), s') \<and> calls s' = Suc (calls s)"
    and "\<exists>s'. requestPaginated plat c options s = (Inl (Untyped e), s') \<and> calls s' = Suc (calls s)"
    using assms(4) by (auto simp: request_def requestPaginated_def)
qed

text \<open>
  Claim C1 says that a caller of \<^verbatim>\<open>request\<close>, \<^verbatim>\<open>requestPaginated\<close> or \<^verbatim>\<open>requestRaw\<close> only ever
  sees typed errors, also when a 2xx response has a body that is not JSON. The code does
  otherwise: \<^verbatim>\<open>request\<close> and \<^verbatim>\<open>requestPaginated\<close> await \<^verbatim>\<open>response.json()\<close> outside of any
  \<^verbatim>\<open>try\<close>, so for the 200 response of \<open>ok_but_not_json\<close> the caller receives the
  \<^verbatim>\<open>SyntaxError\<close> itself.
\<close>

theorem request_not_json_throws_untyped:
  "fst (request test_platform (test_client 3 (always (Resolved ok_but_not_json))) get_test io0) =
     Inl (Untyped (JsError ''SyntaxError'' ''Unexpected token < in JSON at position 0''))
   \<and> fst (requestPaginated test_platform (test_client 3 (always (Resolved ok_but_not_json)))
        get_test io0) =
     Inl (Untyped (JsError ''SyntaxError'' ''Unexpected token < in JSON at position 0''))"
proof -
  have t: "\<forall>k init. fetchFn (test_client 3 (always (Resolved ok_but_not_json))) k
             ''https://api.test.com/test'' init = Resolved ok_but_not_json"
    by (simp add: test_client_def always_def)
  have r: "ok ok_but_not_json"
    "json ok_but_not_json =
       Inl (JsError ''SyntaxError'' ''Unexpected token < in JSON at position 0'')"
    by (simp_all add: ok_but_not_json_def)
  from request_not_json[OF buildUrl_test t r, of io0] show ?thesis by auto
qed

section \<open>Properties of the SSE stream\<close>

subsection \<open>Interpreting a payload\<close>

text \<open>
  Claim C5, as stated, has every payload that decodes to an object with a \<^verbatim>\<open>type\<close> field
  and a defined \<^verbatim>\<open>timestamp\<close> emitted as it is, and every other decoded value, \<^verbatim>\<open>null\<close>
  included, wrapped as a \<^verbatim>\<open>message\<close> event. Both fail. The payload
  \<^verbatim>\<open>{"type":"","timestamp":1}\<close> has both fields and is wrapped, because the code tests
  \<^verbatim>\<open>parsed.type\<close> for truth; and the payload \<^verbatim>\<open>null\<close> becomes a \<^verbatim>\<open>delta\<close> event with
  content \<^verbatim>\<open>"null"\<close>, because \<^verbatim>\<open>parsed.type\<close> throws and the \<^verbatim>\<open>catch\<close> meant for text that is
  not JSON takes it.
\<close>

theorem parseSingleEvent_claimed_shapes_counterexample:
  "parseSingleEvent (table_platform test_table) 0 (''data: '' @ empty_type_json) \<noteq>
     Some (JObj [(''type'', JStr []), (''timestamp'', JNum 1)])
   \<and> parseSingleEvent (table_platform test_table) 0 (''data: '' @ empty_type_json) =
     Some (JObj [(''type'', JStr ''message''), (''phase'', JStr ''do''),
                 (''data'', JObj [(''type'', JStr []), (''timestamp'', JNum 1)]),
                 (''timestamp'', JNum 0), (''visibility'', JStr ''prominent'')])
   \<and> parseSingleEvent (table_platform test_table) 0 ''data: null'' \<noteq>
     Some (JObj [(''type'', JStr ''message''), (''phase'', JStr ''do''), (''data'', JNull),
                 (''timestamp'', JNum 0), (''visibility'', JStr ''prominent'')])
   \<and> parseSingleEvent (table_platform test_table) 0 ''data: null'' =
     Some (JObj [(''type'', JStr ''delta''), (''phase'', JStr ''do''),
                 (''data'', JObj [(''content'', JStr ''null'')]),
                 (''timestamp'', JNum 0), (''visibility'', JStr ''prominent'')])"
  by (simp add: parseSingleEvent_def split_def startsWith_def scan_line_def slice_def
        event_of_data_def table_platform_def test_table_def empty_type_json_def
        connected_json_def hello_json_def world_json_def complete_json_def hello1_json_def
        space2_json_def world3_json_def wrapped_event_def delta_event_def)

text \<open>
  Claim C5, amended. Let \<open>data\<close> be the data string accumulated from the lines of a block
  and \<open>hint\<close> the event type captured, and let \<open>data\<close> be non-empty. If \<open>data\<close> decodes to a
  value whose \<^verbatim>\<open>type\<close> is truthy and whose \<^verbatim>\<open>timestamp\<close> is not \<^verbatim>\<open>undefined\<close>, that value
  is the event. If it decodes to any other value except \<^verbatim>\<open>null\<close>, the event is
  \<^verbatim>\<open>{type: hint or "message", phase: "do", data: <decoded>, timestamp: now, visibility:
  "prominent"}\<close>. If decoding fails, the event is the delta event \<^verbatim>\<open>{type: "delta", phase:
  "do", data: {content: data}, timestamp: now, visibility: "prominent"}\<close>. (Nothing is said
  here about a payload that decodes to \<^verbatim>\<open>null\<close>.)
\<close>

theorem parseSingleEvent_payload:
  assumes "foldl scan_line ([], []) (split block [CHR 0x0A]) = (data, hint)"
      and "data \<noteq> []"
  shows "(\<forall>parsed. JSON_parse P data = Some parsed \<and> truthy (get_prop parsed ''type'')
            \<and> get_prop parsed ''timestamp'' \<noteq> None \<longrightarrow>
          parseSingleEvent P now block = Some parsed)
       \<and> (\<forall>parsed. JSON_parse P data = Some parsed \<and> parsed \<noteq> JNull
            \<and> \<not> (truthy (get_prop parsed ''type'') \<and> get_prop parsed ''timestamp'' \<noteq> None) \<longrightarrow>
          parseSingleEvent P now block =
            Some (JObj [(''type'', JStr (if hint \<noteq> [] then hint else ''message'')),
                        (''phase'', JStr ''do''), (''data'', parsed),
                        (''timestamp'', JNum now), (''visibility'', JStr ''prominent'')]))
       \<and> (JSON_parse P data = None \<longrightarrow>
          parseSingleEvent P now block =
            Some (JObj [(''type'', JStr ''delta''), (''phase'', JStr ''do''),
                        (''data'', JObj [(''content'', JStr data)]),
                        (''timestamp'', JNum now), (''visibility'', JStr ''prominent'')]))"
  using assms
  by (auto simp: parseSingleEvent_def event_of_data_def wrapped_event_def delta_event_def)

text \<open>
  A block without data gives no event. Then the theorem on a fully formed event, on the
  number 5 under the hint \<^verbatim>\<open>ping\<close> and without a hint, and on plain text.
\<close>

lemma parseSingleEvent_no_data:
  assumes "foldl scan_line ([], []) (split block [CHR 0x0A]) = ([], hint)"
  shows "parseSingleEvent P now block = None"
  using assms by (simp add: parseSingleEvent_def event_of_data_def)

lemma scan_hello:
  "foldl scan_line ([], []) (split (''data: '' @ hello_json) [CHR 0x0A]) = (hello_json, [])"
  by (simp add: split_def startsWith_def scan_line_def slice_def hello_json_def)

lemma scan_ping:
  "foldl scan_line ([], []) (split (''event: ping'' @ [CHR 0x0A] @ ''data: 5'') [CHR 0x0A]) =
     (''5'', ''ping'')"
  by (simp add: split_def startsWith_def scan_line_def slice_def trim_def is_space_def)

lemma scan_five:
  "foldl scan_line ([], []) (split ''data:5'' [CHR 0x0A]) = (''5'', [])"
  by (simp add: split_def startsWith_def scan_line_def slice_def)

lemma scan_plain:
  "foldl scan_line ([], []) (split ''data: plain text'' [CHR 0x0A]) = (''plain text'', [])"
  by (simp add: split_def startsWith_def scan_line_def slice_def)

theorem parseSingleEvent_payload_witness:
  "parseSingleEvent (table_platform test_table) 7 (''data: '' @ hello_json) =
     Some (stream_event ''delta'' ''do'' (JObj [(''content'', JStr ''Hello'')]) 1001)
   \<and> parseSingleEvent (table_platform test_table) 7
       (''event: ping'' @ [CHR 0x0A] @ ''data: 5'') =
     Some (JObj [(''type'', JStr ''ping''), (''phase'', JStr ''do''), (''data'', JNum 5),
                 (''timestamp'', JNum 7), (''visibility'', JStr ''prominent'')])
   \<and> parseSingleEvent (table_platform test_table) 7 ''data:5'' =
     Some (JObj [(''type'', JStr ''message''), (''phase'', JStr ''do''), (''data'', JNum 5),
                 (''timestamp'', JNum 7), (''visibility'', JStr ''prominent'')])
   \<and> parseSingleEvent (table_platform test_table) 7 ''data: plain text'' =
     Some (JObj [(''type'', JStr ''delta''), (''phase'', JStr ''do''),
                 (''data'', JObj [(''content'', JStr ''plain text'')]),
                 (''timestamp'', JNum 7), (''visibility'', JStr ''prominent'')])"
proof -
  have h: "hello_json \<noteq> []" by (simp add: hello_json_def)
  have ph: "JSON_parse (table_platform test_table) hello_json =
              Some (stream_event ''delta'' ''do'' (JObj [(''content'', JStr ''Hello'')]) 1001)"
    by (simp add: table_platform_def test_table_def connected_json_def hello_json_def)
  have p5: "JSON_parse (table_platform test_table) ''5'' = Some (JNum 5)"
    by (simp add: table_platform_def test_table_def connected_json_def hello_json_def
          world_json_def complete_json_def hello1_json_def space2_json_def world3_json_def
          empty_type_json_def)
  have pp: "JSON_parse (table_platform test_table) ''plain text'' = None"
    by (simp add: table_platform_def test_table_def connected_json_def hello_json_def
          world_json_def complete_json_def hello1_json_def space2_json_def world3_json_def
          empty_type_json_def)
  show ?thesis
    using parseSingleEvent_payload [OF scan_hello h, of "table_platform test_table" 7]
          parseSingleEvent_payload [OF scan_ping, of "table_platform test_table" 7]
          parseSingleEvent_payload [OF scan_five, of "table_platform test_table" 7]
          parseSingleEvent_payload [OF scan_plain, of "table_platform test_table" 7]
          ph p5 pp
    by (simp add: stream_event_def)
qed

subsection \<open>A stream is read once\<close>

lemma asyncIterator_consumes [simp]: "consumed (snd (asyncIterator P s))"
  by (simp add: asyncIterator_def Let_def split: option.splits prod.splits)

lemma stream_text_consumes [simp]: "consumed (snd (stream_text P s))"
proof -
  have "snd (stream_text P s) = snd (asyncIterator P s)"
    by (simp add: stream_text_def split: prod.splits sum.splits option.splits)
  then show ?thesis by simp
qed

lemma subscribe_consumes [simp]: "consumed (snd (snd (subscribe P cb s)))"
proof -
  have "snd (snd (subscribe P cb s)) = snd (asyncIterator P s)"
    by (simp add: subscribe_def split: prod.splits sum.splits option.splits)
  then show ?thesis by simp
qed

lemma second_pass:
  assumes "consumed s"
  shows "asyncIterator P s = (([], Some already_consumed), s)"
    and "stream_text P s = (Inl already_consumed, s)"
    and "\<not> onError cb \<Longrightarrow> subscribe P cb s = (Inl already_consumed, [], s)"
    and "onError cb \<Longrightarrow> subscribe P cb s = (Inr None, [OnError already_consumed], s)"
  using assms
  by (simp_all add: asyncIterator_def stream_text_def subscribe_def already_consumed_def)

text \<open>
  Claim C4, as stated, has every second consumption attempt fail with the "already
  consumed" error, in every mode. \<^verbatim>\<open>subscribe\<close> with an \<^verbatim>\<open>onError\<close> callback does not fail:
  after \<^verbatim>\<open>text()\<close> has drained the stream it returns \<^verbatim>\<open>undefined\<close>.
\<close>

theorem subscribe_onError_second_pass_counterexample:
  "fst (subscribe (table_platform test_table)
          \<lparr>onEvent = False, onDelta = False, onComplete = False, onError = True,
           onThinking = False\<rparr>
          (snd (stream_text (table_platform test_table)
                  (new_AidenStream (Some \<lparr>chunks = [data_record hello_json], failure = None\<rparr>)))))
   = Inr None
   \<and> fst (snd (subscribe (table_platform test_table)
          \<lparr>onEvent = False, onDelta = False, onComplete = False, onError = True,
           onThinking = False\<rparr>
          (snd (stream_text (table_platform test_table)
                  (new_AidenStream (Some \<lparr>chunks = [data_record hello_json], failure = None\<rparr>))))))
   = [OnError (Untyped (JsError ''Error''
        ''Stream has already been consumed. SSE streams can only be read once.''))]"
  using second_pass(4) [OF stream_text_consumes]
  by (simp add: already_consumed_def)

text \<open>
  Claim C4, amended. After one consumption method (iteration, \<^verbatim>\<open>subscribe\<close> or \<^verbatim>\<open>text\<close>) has
  run on a stream, a second attempt by iteration, by \<^verbatim>\<open>text\<close>, or by \<^verbatim>\<open>subscribe\<close> without an
  \<^verbatim>\<open>onError\<close> callback throws the "already consumed" error and yields no event; a second
  \<^verbatim>\<open>subscribe\<close> with an \<^verbatim>\<open>onError\<close> callback hands that error to the callback, makes no
  other call, and returns \<^verbatim>\<open>undefined\<close>.
\<close>

theorem single_pass:
  "(s1 = snd (asyncIterator P s) \<or> s1 = snd (stream_text P s)
      \<or> s1 = snd (snd (subscribe P cb s))) \<longrightarrow>
     asyncIterator P s1 = (([], Some already_consumed), s1)
   \<and> stream_text P s1 = (Inl already_consumed, s1)
   \<and> (\<not> onError cb' \<longrightarrow> subscribe P cb' s1 = (Inl already_consumed, [], s1))
   \<and> (onError cb' \<longrightarrow> subscribe P cb' s1 = (Inr None, [OnError already_consumed], s1))"
proof
  assume "s1 = snd (asyncIterator P s) \<or> s1 = snd (stream_text P s)
      \<or> s1 = snd (snd (subscribe P cb s))"
  then have "consumed s1" by auto
  from second_pass[OF this] show
    "asyncIterator P s1 = (([], Some already_consumed), s1)
   \<and> stream_text P s1 = (Inl already_consumed, s1)
   \<and> (\<not> onError cb' \<longrightarrow> subscribe P cb' s1 = (Inl already_consumed, [], s1))
   \<and> (onError cb' \<longrightarrow> subscribe P cb' s1 = (Inr None, [OnError already_consumed], s1))"
    by simp
qed

text \<open>The test of the repository: \<^verbatim>\<open>text()\<close> twice.\<close>

theorem single_pass_witness:
  "fst (stream_text (table_platform test_table)
          (snd (stream_text (table_platform test_table)
                  (new_AidenStream (Some \<lparr>chunks = [data_record hello_json], failure = None\<rparr>)))))
   = Inl (Untyped (JsError ''Error''
        ''Stream has already been consumed. SSE streams can only be read once.''))
   \<and> fst (subscribe (table_platform test_table)
          \<lparr>onEvent = True, onDelta = True, onComplete = True, onError = False,
           onThinking = True\<rparr>
          (snd (stream_text (table_platform test_table)
                  (new_AidenStream (Some \<lparr>chunks = [data_record hello_json], failure = None\<rparr>)))))
   = Inl (Untyped (JsError ''Error''
        ''Stream has already been consumed. SSE streams can only be read once.''))"
  using single_pass
    [of "snd (stream_text (table_platform test_table)
                  (new_AidenStream (Some \<lparr>chunks = [data_record hello_json], failure = None\<rparr>)))"
        "table_platform test_table"
        "new_AidenStream (Some \<lparr>chunks = [data_record hello_json], failure = None\<rparr>)"
        _
        "\<lparr>onEvent = True, onDelta = True, onComplete = True, onError = False,
          onThinking = True\<rparr>"]
  by (simp add: already_consumed_def)

subsection \<open>Splitting does not depend on the chunks\<close>

lemma split_from_nonempty [simp]: "split_from sep cur s \<noteq> []"
  by (induction sep cur s rule: split_from.induct) auto

lemma split_nonempty [simp]: "split s sep \<noteq> []"
  by (simp add: split_def)


lemma split_Nil [simp]: "split [] sep = [[]]"
  by (simp add: split_def)






















subsection \<open>The streams of the tests\<close>

text \<open>
  The callbacks of the subscription test: one call of \<^verbatim>\<open>onThinking\<close>, one of \<^verbatim>\<open>onDelta\<close> with
  \<^verbatim>\<open>"Hi"\<close>, one of \<^verbatim>\<open>onComplete\<close>, and the completion data as the result.
\<close>

lemma subscribe_loop_test:
  "subscribe_loop P
     \<lparr>onEvent = False, onDelta = True, onComplete = True, onError = False, onThinking = True\<rparr>
     None
     [stream_event ''thinking_start'' ''plan'' (JObj []) 1,
      stream_event ''delta'' ''do'' (JObj [(''content'', JStr ''Hi'')]) 2,
      stream_event ''complete'' ''act'' (JObj [(''sessionId'', JStr ''s-1'')]) 3] =
   ([OnThinking (stream_event ''thinking_start'' ''plan'' (JObj []) 1),
     OnDelta (Some (JStr ''Hi'')),
     OnComplete (Some (JObj [(''sessionId'', JStr ''s-1'')]))],
    Some (JObj [(''sessionId'', JStr ''s-1'')]), None)"
  by (simp add: dispatch_def stream_event_def is_thinking_def Let_def)

text \<open>Two blank records yield no event.\<close>

lemma blank_records_test:
  "fst (asyncIterator P
          (new_AidenStream (Some
             \<lparr>chunks = [[CHR 0x0A, CHR 0x0A] @ ''  '' @ [CHR 0x0A, CHR 0x0A]], failure = None\<rparr>))) =
     ([], None)"
  by (simp add: asyncIterator_def new_AidenStream_def parseEvents_def split_def startsWith_def
        trim_def is_space_def Let_def)




end
